theory Spec2Isabelle
  imports
    Main
    "HOL-Library.Word"
    "HOL-Library.AList"
    "HOL-Library.Char_ord"
    "HOL-Library.List_Lexorder"
    "HOL-Library.Code_Target_Nat"
begin

section \<open>Values of the embedding\<close>

text \<open>
  The server is one Node script, \<^verbatim>\<open>src/node.js\<close>. A \<^verbatim>\<open>Buffer\<close> is a list of bytes, a
  JavaScript string is a \<^typ>\<open>string\<close> (code units below 256), a value read from or written
  as JSON is a \<open>json\<close>, and a thrown \<^verbatim>\<open>Error\<close> is an \<open>exn\<close> carrying its message. A field
  of a request body that is absent (\<^verbatim>\<open>undefined\<close>) is \<open>None\<close>.
\<close>

type_synonym byte = "8 word"
type_synonym buffer = "byte list"

datatype json =
    JNull
  | JBool bool
  | JNum int
  | JStr string
  | JArr "json list"
  | JObj "(string \<times> json) list"

datatype exn = Error string

fun message :: "exn \<Rightarrow> string" where
  "message (Error m) = m"

text \<open>JavaScript truthiness, as \<^verbatim>\<open>!x\<close>, \<^verbatim>\<open>x && y\<close> and \<^verbatim>\<open>x || y\<close> test it.\<close>

fun truthy :: "string option \<Rightarrow> bool" where
  "truthy None = False"
| "truthy (Some s) = (s \<noteq> [])"

fun jtruthy :: "json option \<Rightarrow> bool" where
  "jtruthy None = False"
| "jtruthy (Some JNull) = False"
| "jtruthy (Some (JBool b)) = b"
| "jtruthy (Some (JNum n)) = (n \<noteq> 0)"
| "jtruthy (Some (JStr s)) = (s \<noteq> [])"
| "jtruthy (Some (JArr xs)) = True"
| "jtruthy (Some (JObj kvs)) = True"

section \<open>The runtime the script calls\<close>

text \<open>
  The script implements no cryptography, compression or serialisation of its own: it calls
  Node's \<^verbatim>\<open>crypto\<close> and \<^verbatim>\<open>zlib\<close> modules, \<^verbatim>\<open>Buffer\<close>, \<^verbatim>\<open>JSON\<close> and the \<^verbatim>\<open>bcrypt\<close> package.
  These are parameters of the embedding, one field each; a call that can throw returns
  \<open>Inl\<close> of the exception. Every theorem below holds for any runtime, or states the
  contract of the runtime it relies on as a hypothesis.

  \<^item> \<open>pbkdf2 password salt iterations keylen digest\<close>: \<^verbatim>\<open>crypto.pbkdf2\<close>, \<open>Inl\<close> when the
    callback receives \<^verbatim>\<open>err\<close> or the call itself throws. The password is the value the
    script passes, which comes from a JSON body and may be of any JSON type;
  \<^item> \<open>scryptSync password salt keylen\<close>: \<^verbatim>\<open>crypto.scryptSync\<close>;
  \<^item> \<open>gcm_seal key iv plain\<close>: \<^verbatim>\<open>createCipheriv('aes-256-gcm', key, iv)\<close>, then \<^verbatim>\<open>update\<close>,
    \<^verbatim>\<open>final\<close> and \<^verbatim>\<open>getAuthTag\<close>: the encrypted bytes and the tag;
  \<^item> \<open>gcm_open key iv tag cipher\<close>: \<^verbatim>\<open>createDecipheriv\<close>, \<^verbatim>\<open>setAuthTag\<close>, \<^verbatim>\<open>update\<close>, \<^verbatim>\<open>final\<close>;
  \<^item> \<open>gzipSync\<close>, \<open>gunzipSync\<close>: \<^verbatim>\<open>zlib\<close>;
  \<^item> \<open>sha256_hex\<close>: \<^verbatim>\<open>createHash('sha256').update(input).digest('hex')\<close>;
  \<^item> \<open>to_base64\<close>, \<open>from_base64\<close>: \<^verbatim>\<open>buf.toString('base64')\<close>, \<^verbatim>\<open>Buffer.from(s, 'base64')\<close>;
  \<^item> \<open>to_utf8\<close>, \<open>from_utf8\<close>: \<^verbatim>\<open>Buffer.from(s, 'utf8')\<close>, \<^verbatim>\<open>buf.toString('utf8')\<close>;
  \<^item> \<open>json_stringify\<close>, \<open>json_parse\<close>: \<^verbatim>\<open>JSON\<close>;
  \<^item> \<open>bcrypt_hash pin rounds salt\<close> (the salt is the randomness \<^verbatim>\<open>bcrypt.hash\<close> draws) and
    \<open>bcrypt_compare pin hash\<close>.
\<close>

record runtime =
  pbkdf2 :: "json \<Rightarrow> buffer \<Rightarrow> nat \<Rightarrow> nat \<Rightarrow> string \<Rightarrow> exn + buffer"
  scryptSync :: "string \<Rightarrow> string \<Rightarrow> nat \<Rightarrow> exn + buffer"
  gcm_seal :: "buffer \<Rightarrow> buffer \<Rightarrow> buffer \<Rightarrow> exn + buffer \<times> buffer"
  gcm_open :: "buffer \<Rightarrow> buffer \<Rightarrow> buffer \<Rightarrow> buffer \<Rightarrow> exn + buffer"
  gzipSync :: "buffer \<Rightarrow> exn + buffer"
  gunzipSync :: "buffer \<Rightarrow> exn + buffer"
  sha256_hex :: "string \<Rightarrow> string"
  to_base64 :: "buffer \<Rightarrow> string"
  from_base64 :: "string \<Rightarrow> buffer"
  to_utf8 :: "string \<Rightarrow> buffer"
  from_utf8 :: "buffer \<Rightarrow> string"
  json_stringify :: "json \<Rightarrow> string"
  json_parse :: "string \<Rightarrow> exn + json"
  bcrypt_hash :: "string \<Rightarrow> nat \<Rightarrow> buffer \<Rightarrow> string"
  bcrypt_compare :: "string \<Rightarrow> string \<Rightarrow> bool"

section \<open>Key derivation\<close>





section \<open>AES-GCM and gzip helpers\<close>

text \<open>
  \<^verbatim>\<open>buf.slice(start, end)\<close>: a negative index counts from the end of the buffer, and both
  indices are clamped to the buffer.
\<close>

definition clamp_index :: "int \<Rightarrow> nat \<Rightarrow> nat" where
  "clamp_index i len = (if i < 0 then nat (max (int len + i) 0) else min (nat i) len)"

definition buffer_slice :: "buffer \<Rightarrow> int \<Rightarrow> int \<Rightarrow> buffer" where
  "buffer_slice b start stop =
     (let s = clamp_index start (length b); e = clamp_index stop (length b)
      in take (e - s) (drop s b))"

record encrypted =
  enc_ciphertext :: string
  enc_iv :: string

text \<open>
  \<^verbatim>\<open>aesGcmEncrypt\<close> (lines 110-116). The first argument after the runtime is the result of
  \<^verbatim>\<open>crypto.randomBytes(12)\<close>, the fresh nonce of this call.
\<close>

definition aesGcmEncrypt :: "runtime \<Rightarrow> buffer \<Rightarrow> buffer \<Rightarrow> buffer \<Rightarrow> exn + encrypted" where
  "aesGcmEncrypt R iv keyBuf plaintextBuffer =
     (case gcm_seal R keyBuf iv plaintextBuffer of
        Inl e \<Rightarrow> Inl e
      | Inr (enc, tag) \<Rightarrow>
          Inr \<lparr>enc_ciphertext = to_base64 R (enc @ tag), enc_iv = to_base64 R iv\<rparr>)"

text \<open>\<^verbatim>\<open>aesGcmDecrypt\<close> (lines 117-126): the last 16 bytes of the decoded buffer are the tag.\<close>

definition aesGcmDecrypt :: "runtime \<Rightarrow> buffer \<Rightarrow> string \<Rightarrow> string \<Rightarrow> exn + buffer" where
  "aesGcmDecrypt R keyBuf ciphertextBase64 ivBase64 =
     (let buffer = from_base64 R ciphertextBase64;
          iv = from_base64 R ivBase64;
          tag = buffer_slice buffer (int (length buffer) - 16) (int (length buffer));
          ciphertext = buffer_slice buffer 0 (int (length buffer) - 16)
      in gcm_open R keyBuf iv tag ciphertext)"

definition gzipBufferSync :: "runtime \<Rightarrow> buffer \<Rightarrow> exn + buffer" where
  "gzipBufferSync R buf = gzipSync R buf"

definition gunzipBufferSync :: "runtime \<Rightarrow> buffer \<Rightarrow> exn + buffer" where
  "gunzipBufferSync R buf = gunzipSync R buf"

definition sha256Hex :: "runtime \<Rightarrow> string \<Rightarrow> string" where
  "sha256Hex R input = sha256_hex R input"

section \<open>The persisted state\<close>

text \<open>
  What the script keeps under \<^verbatim>\<open>./data\<close>: \<^verbatim>\<open>meta.json\<close>, \<^verbatim>\<open>notesIndex.json\<close>, \<^verbatim>\<open>history.log\<close>
  and, for a note \<open>nid\<close>, the directory \<^verbatim>\<open>blobs/nid\<close> with its subdirectory \<^verbatim>\<open>versions\<close> of
  files. A directory is a list of file names with their contents, names distinct;
  \<^verbatim>\<open>readdirSync\<close> returns the names in the order of the list. \<open>jwt_secret\<close> is the constant
  \<^verbatim>\<open>JWT_SECRET\<close> of the running process.

  A note identifier is one path segment, so that different identifiers name different
  directories. The files exist and the file system accepts every write: a failure of the
  storage itself is outside the embedding, as are the events pushed to listening clients.
\<close>

record master_meta =
  createdAt :: nat
  version :: string
  pinHash :: "string option"
  encryptionProfile :: "string option"

record note_entry =
  note_id :: string
  note_title :: string
  note_type :: string
  note_tags :: json
  note_summary :: string
  note_createdAt :: nat
  note_updatedAt :: nat

record history_entry =
  h_ts :: nat
  h_action :: string
  h_payload :: json

type_synonym directory = "(string \<times> buffer) list"

record server =
  jwt_secret :: string
  meta_file :: master_meta
  notes_index :: "note_entry list"
  note_dirs :: "string set"
  version_dirs :: "string \<rightharpoonup> directory"
  history_log :: "history_entry list"

text \<open>\<^verbatim>\<open>logHistory\<close> (lines 88-94) appends one line to the history log; \<open>ts\<close> is \<^verbatim>\<open>Date.now()\<close>.\<close>

definition logHistory :: "nat \<Rightarrow> string \<Rightarrow> json \<Rightarrow> server \<Rightarrow> server" where
  "logHistory ts action payload s =
     s\<lparr>history_log := history_log s @ [\<lparr>h_ts = ts, h_action = action, h_payload = payload\<rparr>]\<rparr>"

definition loadNotesIndex :: "server \<Rightarrow> note_entry list" where
  "loadNotesIndex s = notes_index s"

definition saveNotesIndex :: "nat \<Rightarrow> note_entry list \<Rightarrow> server \<Rightarrow> server" where
  "saveNotesIndex ts arr s =
     logHistory ts ''notes.index.update'' (JObj [(''count'', JNum (int (length arr)))])
       (s\<lparr>notes_index := arr\<rparr>)"

text \<open>\<^verbatim>\<open>if (!fs.existsSync(dir)) fs.mkdirSync(dir)\<close>, for a note's directory and for its versions.\<close>

definition ensure_note_dir :: "string \<Rightarrow> server \<Rightarrow> server" where
  "ensure_note_dir nid s = s\<lparr>note_dirs := insert nid (note_dirs s)\<rparr>"

definition ensure_versions_dir :: "string \<Rightarrow> server \<Rightarrow> server" where
  "ensure_versions_dir nid s =
     (case version_dirs s nid of
        None \<Rightarrow> s\<lparr>version_dirs := (version_dirs s)(nid \<mapsto> [])\<rparr>
      | Some d \<Rightarrow> s)"

text \<open>
  \<^verbatim>\<open>fs.writeFileSync(filename, data)\<close> in the versions directory of \<open>nid\<close>: a file of that
  name is replaced, a new name is added.
\<close>

definition write_version_file :: "string \<Rightarrow> string \<Rightarrow> buffer \<Rightarrow> server \<Rightarrow> server" where
  "write_version_file nid filename data s =
     s\<lparr>version_dirs := (version_dirs s)
        (nid \<mapsto> AList.update filename data (case version_dirs s nid of None \<Rightarrow> [] | Some d \<Rightarrow> d))\<rparr>"

text \<open>The template string of a number: its decimal digits.\<close>

fun decimal :: "nat \<Rightarrow> string" where
  "decimal n =
     (if n < 10 then [char_of (48 + n)]
      else decimal (n div 10) @ [char_of (48 + n mod 10)])"

declare decimal.simps [simp del]

definition version_filename :: "nat \<Rightarrow> string" where
  "version_filename t = decimal t @ ''.json.gz''"

section \<open>Creating a note\<close>

text \<open>
  The body of \<^verbatim>\<open>POST /api/v3/notes\<close> (lines 370-419), after \<^verbatim>\<open>requireAuth\<close> has let the
  request through. The string fields of the body are strings where present.
\<close>

record blob =
  plaintext :: "string option"
  ciphertext :: "string option"
  blob_iv :: "string option"
  blob_meta :: "json option"

record note_body =
  body_id :: "string option"
  title :: "string option"
  body_type :: "string option"
  tags :: "json option"
  summary :: "string option"
  body_blob :: "blob option"
  encryptionMode :: "string option"

text \<open>
  What the surroundings give one run of the handler: the \<^verbatim>\<open>uuidv4()\<close> of \<^verbatim>\<open>id('n')\<close>, the
  value of each \<^verbatim>\<open>Date.now()\<close> in the order of the calls, and the bytes of
  \<^verbatim>\<open>crypto.randomBytes(12)\<close>.
\<close>

record surroundings =
  uuid :: string
  now_created :: nat
  now_updated :: nat
  now_index_log :: nat
  now_version :: nat
  now_create_log :: nat
  random_iv :: buffer

text \<open>
  The result of a handler: \<open>Reply\<close> with the status and JSON body of the response the
  handler sends, or \<open>Uncaught\<close> with the exception that leaves the \<^verbatim>\<open>async\<close> handler before it
  has sent one. Express 5, which line 5 installs, passes such an exception to its error
  handler, and the client receives status 500 with the error page of Express in place of
  a JSON body.
\<close>

datatype outcome = Reply nat json | Uncaught exn

fun http_status :: "outcome \<Rightarrow> nat" where
  "http_status (Reply code body) = code"
| "http_status (Uncaught e) = 500"

definition entry_json :: "note_entry \<Rightarrow> json" where
  "entry_json e =
     JObj [(''id'', JStr (note_id e)), (''title'', JStr (note_title e)),
           (''type'', JStr (note_type e)), (''tags'', note_tags e),
           (''summary'', JStr (note_summary e)), (''createdAt'', JNum (int (note_createdAt e))),
           (''updatedAt'', JNum (int (note_updatedAt e)))]"

text \<open>\<^verbatim>\<open>encryptionMode || metaConf.encryptionProfile || 'client-only'\<close> (line 393).\<close>

definition resolve_profile :: "string option \<Rightarrow> master_meta \<Rightarrow> string" where
  "resolve_profile mode metaConf =
     (if truthy mode then the mode
      else if truthy (encryptionProfile metaConf) then the (encryptionProfile metaConf)
      else ''client-only'')"

text \<open>The tests of the two branches (lines 396 and 408).\<close>

definition has_plaintext :: "blob option \<Rightarrow> bool" where
  "has_plaintext b = (case b of None \<Rightarrow> False | Some bl \<Rightarrow> truthy (plaintext bl))"

definition has_ciphertext :: "blob option \<Rightarrow> bool" where
  "has_ciphertext b =
     (case b of None \<Rightarrow> False | Some bl \<Rightarrow> truthy (ciphertext bl) \<and> truthy (blob_iv bl))"

text \<open>\<^verbatim>\<open>blob.meta || {}\<close>.\<close>

definition meta_or_empty :: "json option \<Rightarrow> json" where
  "meta_or_empty m = (if jtruthy m then the m else JObj [])"

text \<open>
  The object written as a version: \<^verbatim>\<open>{ ciphertext, iv, meta: versionMeta }\<close> with
  \<^verbatim>\<open>versionMeta = { iv, checksum: sha256Hex(ciphertext), mode, meta }\<close>.
\<close>

definition version_meta :: "runtime \<Rightarrow> string \<Rightarrow> string \<Rightarrow> string \<Rightarrow> json \<Rightarrow> json" where
  "version_meta R c i mode m =
     JObj [(''iv'', JStr i), (''checksum'', JStr (sha256Hex R c)), (''mode'', JStr mode),
           (''meta'', m)]"

definition version_doc :: "runtime \<Rightarrow> string \<Rightarrow> string \<Rightarrow> string \<Rightarrow> json \<Rightarrow> json" where
  "version_doc R c i mode m =
     JObj [(''ciphertext'', JStr c), (''iv'', JStr i), (''meta'', version_meta R c i mode m)]"

text \<open>\<^verbatim>\<open>gzipBufferSync(Buffer.from(JSON.stringify(doc)))\<close>, the bytes of a version file.\<close>

definition pack_json :: "runtime \<Rightarrow> json \<Rightarrow> exn + buffer" where
  "pack_json R doc = gzipBufferSync R (to_utf8 R (json_stringify R doc))"

text \<open>
  The body of the \<^verbatim>\<open>try\<close> of the server-assisted branch (lines 398-406), from the state in
  which it starts: the exception it throws or the state it ends in, and in both cases the
  state reached (the versions directory is made before the file is packed and written).
\<close>

definition server_assisted_write ::
  "runtime \<Rightarrow> surroundings \<Rightarrow> string \<Rightarrow> blob \<Rightarrow> server \<Rightarrow> exn option \<times> server" where
  "server_assisted_write R E nid bl s =
     (case scryptSync R (jwt_secret s) ''server-key-salt-v3'' 32 of
        Inl e \<Rightarrow> (Some e, s)
      | Inr serverKey \<Rightarrow>
     (case gzipBufferSync R (to_utf8 R (the (plaintext bl))) of
        Inl e \<Rightarrow> (Some e, s)
      | Inr gz \<Rightarrow>
     (case aesGcmEncrypt R (random_iv E) serverKey gz of
        Inl e \<Rightarrow> (Some e, s)
      | Inr enc \<Rightarrow>
          let s1 = ensure_versions_dir nid s in
          (case pack_json R (version_doc R (enc_ciphertext enc) (enc_iv enc) ''server-assisted''
                               (meta_or_empty (blob_meta bl))) of
             Inl e \<Rightarrow> (Some e, s1)
           | Inr data \<Rightarrow>
               (None, write_version_file nid (version_filename (now_version E)) data s1)))))"

text \<open>The branch that stores the client's ciphertext as it is (lines 410-414).\<close>

definition client_write ::
  "runtime \<Rightarrow> surroundings \<Rightarrow> string \<Rightarrow> string \<Rightarrow> blob \<Rightarrow> server \<Rightarrow> exn option \<times> server" where
  "client_write R E nid profile bl s =
     (let s1 = ensure_versions_dir nid s in
      case pack_json R (version_doc R (the (ciphertext bl)) (the (blob_iv bl)) profile
                          (meta_or_empty (blob_meta bl))) of
        Inl e \<Rightarrow> (Some e, s1)
      | Inr data \<Rightarrow> (None, write_version_file nid (version_filename (now_version E)) data s1))"

definition new_entry :: "surroundings \<Rightarrow> note_body \<Rightarrow> note_entry" where
  "new_entry E body =
     \<lparr>note_id = (if truthy (body_id body) then the (body_id body) else ''n'' @ uuid E),
      note_title = the (title body),
      note_type = (case body_type body of None \<Rightarrow> ''general'' | Some t \<Rightarrow> t),
      note_tags = (case tags body of None \<Rightarrow> JArr [] | Some t \<Rightarrow> t),
      note_summary = (case summary body of None \<Rightarrow> [] | Some t \<Rightarrow> t),
      note_createdAt = now_created E,
      note_updatedAt = now_updated E\<rparr>"

text \<open>The last two statements (lines 417-418).\<close>

definition created :: "surroundings \<Rightarrow> note_entry \<Rightarrow> string \<Rightarrow> server \<Rightarrow> outcome \<times> server" where
  "created E entry profile s =
     (Reply 200 (JObj [(''ok'', JBool True), (''note'', entry_json entry)]),
      logHistory (now_create_log E) ''notes.create''
        (JObj [(''id'', JStr (note_id entry)), (''title'', JStr (note_title entry)),
               (''profile'', JStr profile)]) s)"

definition post_notes :: "runtime \<Rightarrow> surroundings \<Rightarrow> server \<Rightarrow> note_body \<Rightarrow> outcome \<times> server" where
  "post_notes R E s body =
     (if \<not> truthy (title body)
      then (Reply 400 (JObj [(''error'', JStr ''title required'')]), s)
      else
        let entry = new_entry E body;
            nid = note_id entry;
            s1 = saveNotesIndex (now_index_log E) (entry # loadNotesIndex s) s;
            s2 = ensure_note_dir nid s1;
            profile = resolve_profile (encryptionMode body) (meta_file s2)
        in
          if has_plaintext (body_blob body) \<and> profile = ''server-assisted'' then
            (case server_assisted_write R E nid (the (body_blob body)) s2 of
               (Some e, s3) \<Rightarrow>
                 (Reply 500 (JObj [(''error'', JStr ''server encryption failed'')]), s3)
             | (None, s3) \<Rightarrow> created E entry profile s3)
          else if has_ciphertext (body_blob body) then
            (case client_write R E nid profile (the (body_blob body)) s2 of
               (Some e, s3) \<Rightarrow> (Uncaught e, s3)
             | (None, s3) \<Rightarrow> created E entry profile s3)
          else created E entry profile s2)"

section \<open>Listing the versions of a note\<close>

text \<open>
  \<^verbatim>\<open>GET /api/v3/notes/:id/versions\<close> (lines 422-439). \<^verbatim>\<open>files.sort()\<close> orders the names as
  strings, code unit by code unit, which is the order of \<^typ>\<open>string\<close> here.
\<close>

text \<open>\<^verbatim>\<open>f.split(sep)[0]\<close>: the part of \<open>f\<close> before the first occurrence of \<open>sep\<close>.\<close>

fun before_sep :: "string \<Rightarrow> string \<Rightarrow> string" where
  "before_sep sep [] = []"
| "before_sep sep (c # cs) =
     (if take (length sep) (c # cs) = sep then [] else c # before_sep sep cs)"

definition is_digit :: "char \<Rightarrow> bool" where
  "is_digit c = (48 \<le> (of_char c :: nat) \<and> (of_char c :: nat) \<le> 57)"

text \<open>
  \<^verbatim>\<open>Number(str)\<close> on a non-empty string of decimal digits; \<open>None\<close> stands for its result on
  any other string.
\<close>

definition number_of :: "string \<Rightarrow> nat option" where
  "number_of str =
     (if str \<noteq> [] \<and> list_all is_digit str
      then Some (foldl (\<lambda>a c. 10 * a + (of_char c - 48)) 0 str)
      else None)"

record version_summary =
  sum_filename :: string
  sum_ts :: "nat option"
  sum_meta :: json

text \<open>\<^verbatim>\<open>content.meta || null\<close> inside the \<^verbatim>\<open>try\<close>, and \<^verbatim>\<open>null\<close> from the \<^verbatim>\<open>catch\<close>.\<close>

definition meta_of_file :: "runtime \<Rightarrow> buffer \<Rightarrow> json" where
  "meta_of_file R data =
     (case gunzipBufferSync R data of
        Inl e \<Rightarrow> JNull
      | Inr raw \<Rightarrow>
          (case json_parse R (from_utf8 R raw) of
             Inl e \<Rightarrow> JNull
           | Inr (JObj kvs) \<Rightarrow>
               (if jtruthy (map_of kvs ''meta'') then the (map_of kvs ''meta'') else JNull)
           | Inr other \<Rightarrow> JNull))"

definition summary_of :: "runtime \<Rightarrow> directory \<Rightarrow> string \<Rightarrow> version_summary" where
  "summary_of R dir f =
     \<lparr>sum_filename = f,
      sum_ts = number_of (before_sep ''.json.gz'' f),
      sum_meta = (case map_of dir f of None \<Rightarrow> JNull | Some data \<Rightarrow> meta_of_file R data)\<rparr>"

text \<open>\<open>None\<close> is the 404 \<^verbatim>\<open>no versions\<close>, \<open>Some versions\<close> the 200 with \<^verbatim>\<open>{ versions }\<close>.\<close>

definition list_versions :: "runtime \<Rightarrow> server \<Rightarrow> string \<Rightarrow> version_summary list option" where
  "list_versions R s nid =
     (case version_dirs s nid of
        None \<Rightarrow> None
      | Some dir \<Rightarrow>
          let files = rev (sort (map fst dir))
          in Some (map (summary_of R dir) files))"

section \<open>The encryption helper endpoints and the PIN\<close>


text \<open>\<^verbatim>\<open>POST /api/v3/enc/decrypt\<close> (lines 632-641): one \<^verbatim>\<open>try\<close> around all three steps.\<close>

record decrypt_body =
  keyBase64 :: "string option"
  dec_ciphertext :: "string option"
  dec_iv :: "string option"

definition decrypt_failed :: "exn \<Rightarrow> outcome" where
  "decrypt_failed e =
     Reply 500 (JObj [(''error'', JStr ''decrypt failed''), (''detail'', JStr (message e))])"

definition enc_decrypt :: "runtime \<Rightarrow> decrypt_body \<Rightarrow> outcome" where
  "enc_decrypt R body =
     (if \<not> truthy (keyBase64 body) \<or> \<not> truthy (dec_ciphertext body) \<or> \<not> truthy (dec_iv body)
      then Reply 400 (JObj [(''error'', JStr ''key+ciphertext+iv required'')])
      else
        let keyBuf = from_base64 R (the (keyBase64 body)) in
        (case aesGcmDecrypt R keyBuf (the (dec_ciphertext body)) (the (dec_iv body)) of
           Inl e \<Rightarrow> decrypt_failed e
         | Inr plainGz \<Rightarrow>
        (case gunzipBufferSync R plainGz of
           Inl e \<Rightarrow> decrypt_failed e
         | Inr raw \<Rightarrow>
        (case json_parse R (from_utf8 R raw) of
           Inl e \<Rightarrow> decrypt_failed e
         | Inr json \<Rightarrow> Reply 200 (JObj [(''payload'', json)])))))"

text \<open>
  \<^verbatim>\<open>POST /api/v3/auth/setup-pin\<close> (lines 163-185). \<open>pin_salt_bytes\<close> is the randomness of
  \<^verbatim>\<open>bcrypt.hash\<close>, \<open>pin_now\<close> and \<open>pin_log_now\<close> the two \<^verbatim>\<open>Date.now()\<close> of the history line.
\<close>

record pin_body =
  pin :: "string option"
  currentPin :: "string option"

record pin_surroundings =
  pin_salt_bytes :: buffer
  pin_now :: nat
  pin_log_now :: nat

definition BCRYPT_ROUNDS :: nat where
  "BCRYPT_ROUNDS = 12"

definition setup_pin :: "runtime \<Rightarrow> pin_surroundings \<Rightarrow> server \<Rightarrow> pin_body \<Rightarrow> outcome \<times> server" where
  "setup_pin R E s body =
     (if \<not> truthy (pin body) \<or> length (the (pin body)) < 6
      then (Reply 400 (JObj [(''error'', JStr ''pin required (min 6 chars recommended)'')]), s)
      else
        let meta = meta_file s in
        if \<not> truthy (pinHash meta) then
          let hash = bcrypt_hash R (the (pin body)) BCRYPT_ROUNDS (pin_salt_bytes E);
              s1 = s\<lparr>meta_file := meta\<lparr>pinHash := Some hash\<rparr>\<rparr>
          in (Reply 200 (JObj [(''ok'', JBool True), (''message'', JStr ''PIN created'')]),
              logHistory (pin_log_now E) ''auth.setupPin''
                (JObj [(''createdAt'', JNum (int (pin_now E)))]) s1)
        else if \<not> truthy (currentPin body) then
          (Reply 400 (JObj [(''error'', JStr ''currentPin required to change pin'')]), s)
        else if \<not> bcrypt_compare R (the (currentPin body)) (the (pinHash meta)) then
          (Reply 403 (JObj [(''error'', JStr ''invalid currentPin'')]), s)
        else
          let hash = bcrypt_hash R (the (pin body)) BCRYPT_ROUNDS (pin_salt_bytes E);
              s1 = s\<lparr>meta_file := meta\<lparr>pinHash := Some hash\<rparr>\<rparr>
          in (Reply 200 (JObj [(''ok'', JBool True), (''message'', JStr ''PIN changed'')]),
              logHistory (pin_log_now E) ''auth.changePin''
                (JObj [(''ts'', JNum (int (pin_now E)))]) s1))"

section \<open>A small runtime for concrete runs\<close>

text \<open>
  The theorems quantify over the runtime. To run the handlers on concrete requests, this
  section fixes one that is small enough to evaluate: a byte-wise mask with a 16-byte tag
  for the cipher, a two-byte header for gzip, one character per byte for UTF-8, and base64
  as it is. It keeps the shape of the interfaces (a wrong key length or a wrong tag is
  an exception of the cipher, a missing header an exception of gunzip) and nothing of
  their strength.
\<close>

definition mask_of :: "buffer \<Rightarrow> buffer \<Rightarrow> byte" where
  "mask_of key iv = foldr (+) (key @ iv) 1"

definition tag_of :: "buffer \<Rightarrow> buffer \<Rightarrow> buffer \<Rightarrow> buffer" where
  "tag_of key iv enc = replicate 15 (mask_of key iv) @ [foldr (+) enc (mask_of key iv)]"

definition small_seal :: "buffer \<Rightarrow> buffer \<Rightarrow> buffer \<Rightarrow> exn + buffer \<times> buffer" where
  "small_seal key iv plain =
     (if length key \<noteq> 32 then Inl (Error ''Invalid key length'')
      else
        let enc = map (\<lambda>b. xor b (mask_of key iv)) plain
        in Inr (enc, tag_of key iv enc))"

definition small_open :: "buffer \<Rightarrow> buffer \<Rightarrow> buffer \<Rightarrow> buffer \<Rightarrow> exn + buffer" where
  "small_open key iv tag enc =
     (if length key \<noteq> 32 then Inl (Error ''Invalid key length'')
      else if tag \<noteq> tag_of key iv enc
      then Inl (Error ''Unsupported state or unable to authenticate data'')
      else Inr (map (\<lambda>b. xor b (mask_of key iv)) enc))"

definition small_gzip :: "buffer \<Rightarrow> exn + buffer" where
  "small_gzip buf = Inr (31 # 139 # buf)"

fun small_gunzip :: "buffer \<Rightarrow> exn + buffer" where
  "small_gunzip (a # b # rest) =
     (if a = 31 \<and> b = 139 then Inr rest else Inl (Error ''incorrect header check''))"
| "small_gunzip short = Inl (Error ''unexpected end of file'')"

definition bytes_of :: "string \<Rightarrow> buffer" where
  "bytes_of str = map (\<lambda>c. of_char c) str"

definition chars_of :: "buffer \<Rightarrow> string" where
  "chars_of buf = map (\<lambda>b. char_of (unat b)) buf"

text \<open>
  Base64 of RFC 4648. The decoder reads groups of four characters and stops at the first
  character outside the alphabet, the padding included.
\<close>

definition base64_alphabet :: string where
  "base64_alphabet = ''ABCDEFGHIJKLMNOPQRSTUVWXYZabcdefghijklmnopqrstuvwxyz0123456789+/''"

definition sextet_char :: "nat \<Rightarrow> char" where
  "sextet_char n = base64_alphabet ! n"

fun index_of :: "'a \<Rightarrow> 'a list \<Rightarrow> nat option" where
  "index_of x [] = None"
| "index_of x (y # ys) = (if x = y then Some 0 else map_option Suc (index_of x ys))"

definition char_sextet :: "char \<Rightarrow> nat option" where
  "char_sextet c = index_of c base64_alphabet"

fun base64_encode :: "buffer \<Rightarrow> string" where
  "base64_encode (x # y # z # rest) =
     (let a = unat x; b = unat y; c = unat z
      in [sextet_char (a div 4), sextet_char (a mod 4 * 16 + b div 16),
          sextet_char (b mod 16 * 4 + c div 64), sextet_char (c mod 64)] @ base64_encode rest)"
| "base64_encode [x, y] =
     (let a = unat x; b = unat y
      in [sextet_char (a div 4), sextet_char (a mod 4 * 16 + b div 16),
          sextet_char (b mod 16 * 4), CHR ''=''])"
| "base64_encode [x] =
     (let a = unat x
      in [sextet_char (a div 4), sextet_char (a mod 4 * 16), CHR ''='', CHR ''=''])"
| "base64_encode [] = []"

fun base64_decode :: "string \<Rightarrow> buffer" where
  "base64_decode (w # x # rest) =
     (case (char_sextet w, char_sextet x) of
        (Some s1, Some s2) \<Rightarrow>
          of_nat (s1 * 4 + s2 div 16) #
          (case rest of
             y # rest' \<Rightarrow>
               (case char_sextet y of
                  Some s3 \<Rightarrow>
                    of_nat (s2 mod 16 * 16 + s3 div 4) #
                    (case rest' of
                       z # rest'' \<Rightarrow>
                         (case char_sextet z of
                            Some s4 \<Rightarrow> of_nat (s3 mod 4 * 64 + s4) # base64_decode rest''
                          | None \<Rightarrow> [])
                     | [] \<Rightarrow> [])
                | None \<Rightarrow> [])
           | [] \<Rightarrow> [])
      | _ \<Rightarrow> [])"
| "base64_decode short = []"

text \<open>
  \<^verbatim>\<open>crypto.pbkdf2\<close> checks its arguments before it derives anything, and throws a
  \<^verbatim>\<open>TypeError\<close> for a password that is neither a string nor a buffer. Of the values a JSON
  body can hold, the strings alone pass. (The message goes on to name the value received.)
\<close>

definition invalid_password :: exn where
  "invalid_password =
     Error (''The \"password\" argument must be of type string or an instance of ''
            @ ''ArrayBuffer, Buffer, TypedArray, or DataView.'')"

fun with_password :: "(string \<Rightarrow> buffer) \<Rightarrow> json \<Rightarrow> exn + buffer" where
  "with_password derive (JStr str) = Inr (derive str)"
| "with_password derive other = Inl invalid_password"

definition small_kdf :: "string \<Rightarrow> buffer \<Rightarrow> nat \<Rightarrow> nat \<Rightarrow> buffer" where
  "small_kdf password salt iterations keylen =
     map (\<lambda>i. foldr (+) (bytes_of password @ salt) (of_nat (i + iterations))) [0..<keylen]"

fun join_commas :: "string list \<Rightarrow> string" where
  "join_commas [] = []"
| "join_commas [x] = x"
| "join_commas (x # y # ys) = x @ '','' @ join_commas (y # ys)"

primrec small_stringify :: "json \<Rightarrow> string" where
  "small_stringify JNull = ''null''"
| "small_stringify (JBool b) = (if b then ''true'' else ''false'')"
| "small_stringify (JNum n) = (if n < 0 then ''-'' else []) @ decimal (nat \<bar>n\<bar>)"
| "small_stringify (JStr str) = ''\"'' @ str @ ''\"''"
| "small_stringify (JArr xs) = ''['' @ join_commas (map small_stringify xs) @ '']''"
| "small_stringify (JObj kvs) =
     ''{'' @ join_commas (map (\<lambda>kv. ''\"'' @ fst kv @ ''\":'' @ snd kv)
                            (map (map_prod id small_stringify) kvs)) @ ''}''"

definition small_parse :: "string \<Rightarrow> exn + json" where
  "small_parse str =
     (if str = ''null'' then Inr JNull
      else if str = ''true'' then Inr (JBool True)
      else if str = ''false'' then Inr (JBool False)
      else Inl (Error ''Unexpected token''))"

definition small_bcrypt_hash :: "string \<Rightarrow> nat \<Rightarrow> buffer \<Rightarrow> string" where
  "small_bcrypt_hash secret rounds salt = chars_of (salt @ small_kdf secret salt rounds 8)"

definition small_bcrypt_compare :: "string \<Rightarrow> string \<Rightarrow> bool" where
  "small_bcrypt_compare secret hash =
     (hash = small_bcrypt_hash secret 12 (bytes_of (take (length hash - 8) hash)))"

definition small_runtime :: runtime where
  "small_runtime =
     \<lparr>pbkdf2 = (\<lambda>password salt iterations keylen digest.
                  with_password (\<lambda>str. small_kdf str salt iterations keylen) password),
      scryptSync = (\<lambda>password salt keylen. Inr (small_kdf password (bytes_of salt) 1 keylen)),
      gcm_seal = small_seal,
      gcm_open = small_open,
      gzipSync = small_gzip,
      gunzipSync = small_gunzip,
      sha256_hex = (\<lambda>input. decimal (unat (foldr (+) (bytes_of input) 0))),
      to_base64 = base64_encode,
      from_base64 = base64_decode,
      to_utf8 = bytes_of,
      from_utf8 = chars_of,
      json_stringify = small_stringify,
      json_parse = small_parse,
      bcrypt_hash = small_bcrypt_hash,
      bcrypt_compare = small_bcrypt_compare\<rparr>"

section \<open>Galois/Counter Mode over a block function\<close>

text \<open>
  The cipher the script asks the runtime for, \<^verbatim>\<open>aes-256-gcm\<close>, in the structure of NIST SP
  800-38D and with the block function of AES as a parameter \<open>aes key\<close>: the counter blocks
  start from the nonce, the payload is combined with the encrypted counters, and the tag
  is the encrypted first counter combined with the hash of the ciphertext and its length
  in the field of \<open>2 ^ 128\<close> elements (no associated data, as in the script). Opening
  recomputes the tag, throws when it differs and otherwise combines with the same
  counters. It serves to show that the contract asked of the runtime below is the one
  this mode has, whatever the block function.
\<close>

type_synonym block = "128 word"

definition block_of_bytes :: "buffer \<Rightarrow> block" where
  "block_of_bytes bs =
     foldl (\<lambda>acc b. or (push_bit 8 acc) (ucast b)) 0 (take 16 (bs @ replicate 16 0))"

definition bytes_of_block :: "block \<Rightarrow> buffer" where
  "bytes_of_block w = map (\<lambda>i. ucast (drop_bit (8 * (15 - i)) w)) [0..<16]"

fun blocks :: "buffer \<Rightarrow> block list" where
  "blocks [] = []"
| "blocks (b # bs) = block_of_bytes (b # take 15 bs) # blocks (drop 15 bs)"

definition gf_step :: "block \<Rightarrow> nat \<Rightarrow> block \<times> block \<Rightarrow> block \<times> block" where
  "gf_step x i zv =
     (case zv of (z, v) \<Rightarrow>
        (if bit x (127 - i) then xor z v else z,
         if bit v 0 then xor (drop_bit 1 v) (push_bit 120 225) else drop_bit 1 v))"

definition gf_mult :: "block \<Rightarrow> block \<Rightarrow> block" where
  "gf_mult x y = fst (fold (gf_step x) [0..<128] (0, y))"

definition ghash :: "block \<Rightarrow> block list \<Rightarrow> block" where
  "ghash h xs = foldl (\<lambda>y x. gf_mult (xor y x) h) 0 xs"

definition inc32 :: "block \<Rightarrow> block" where
  "inc32 w = or (push_bit 32 (drop_bit 32 w)) (take_bit 32 (w + 1))"

definition counter0 :: "block \<Rightarrow> buffer \<Rightarrow> block" where
  "counter0 h iv =
     (if length iv = 12 then or (block_of_bytes iv) 1
      else ghash h (blocks iv @ [of_nat (8 * length iv)]))"

fun keystream :: "(block \<Rightarrow> block) \<Rightarrow> block \<Rightarrow> nat \<Rightarrow> buffer" where
  "keystream e ctr 0 = []"
| "keystream e ctr (Suc n) = bytes_of_block (e ctr) @ keystream e (inc32 ctr) n"

definition gctr :: "(block \<Rightarrow> block) \<Rightarrow> block \<Rightarrow> buffer \<Rightarrow> buffer" where
  "gctr e ctr data = map2 xor data (keystream e ctr ((length data + 15) div 16))"

definition gcm_tag :: "(block \<Rightarrow> block) \<Rightarrow> block \<Rightarrow> block \<Rightarrow> buffer \<Rightarrow> buffer" where
  "gcm_tag e h j0 ct =
     bytes_of_block (xor (e j0) (ghash h (blocks ct @ [of_nat (8 * length ct)])))"

definition gcm_encrypt ::
  "(buffer \<Rightarrow> block \<Rightarrow> block) \<Rightarrow> buffer \<Rightarrow> buffer \<Rightarrow> buffer \<Rightarrow> exn + buffer \<times> buffer" where
  "gcm_encrypt aes key iv plain =
     (if length key \<noteq> 32 then Inl (Error ''Invalid key length'')
      else if iv = [] then Inl (Error ''Invalid initialization vector'')
      else
        let e = aes key; h = e 0; j0 = counter0 h iv; ct = gctr e (inc32 j0) plain
        in Inr (ct, gcm_tag e h j0 ct))"

definition gcm_decrypt ::
  "(buffer \<Rightarrow> block \<Rightarrow> block) \<Rightarrow> buffer \<Rightarrow> buffer \<Rightarrow> buffer \<Rightarrow> buffer \<Rightarrow> exn + buffer" where
  "gcm_decrypt aes key iv tag ct =
     (if length key \<noteq> 32 then Inl (Error ''Invalid key length'')
      else if iv = [] then Inl (Error ''Invalid initialization vector'')
      else
        let e = aes key; h = e 0; j0 = counter0 h iv
        in if tag \<noteq> gcm_tag e h j0 ct
           then Inl (Error ''Unsupported state or unable to authenticate data'')
           else Inr (gctr e (inc32 j0) ct))"

definition gcm_runtime :: "(buffer \<Rightarrow> block \<Rightarrow> block) \<Rightarrow> runtime" where
  "gcm_runtime aes = small_runtime\<lparr>gcm_seal := gcm_encrypt aes, gcm_open := gcm_decrypt aes\<rparr>"

definition small_block :: "buffer \<Rightarrow> block \<Rightarrow> block" where
  "small_block key b = xor (b + 1) (block_of_bytes key)"

section \<open>The block function of AES-256\<close>

text \<open>
  The block function the script uses Galois/Counter Mode with, AES with a key of 256 bits
  (FIPS 197), on bytes as integers: the S-box as the table of the standard, one row for
  each value of the high half of a byte; \<^verbatim>\<open>ShiftRows\<close>, \<^verbatim>\<open>MixColumns\<close> and \<^verbatim>\<open>AddRoundKey\<close> on the
  sixteen bytes of the state in the order of the input; the key expansion for a key of
  eight words, which carries the last eight words along; and fourteen rounds, the last
  without \<^verbatim>\<open>MixColumns\<close>. With it the requests to the decrypt endpoint below are run under
  the cipher of the script itself.
\<close>

definition sbox :: "int list list" where
  "sbox =
     [[99, 124, 119, 123, 242, 107, 111, 197, 48, 1, 103, 43, 254, 215, 171, 118],
      [202, 130, 201, 125, 250, 89, 71, 240, 173, 212, 162, 175, 156, 164, 114, 192],
      [183, 253, 147, 38, 54, 63, 247, 204, 52, 165, 229, 241, 113, 216, 49, 21],
      [4, 199, 35, 195, 24, 150, 5, 154, 7, 18, 128, 226, 235, 39, 178, 117],
      [9, 131, 44, 26, 27, 110, 90, 160, 82, 59, 214, 179, 41, 227, 47, 132],
      [83, 209, 0, 237, 32, 252, 177, 91, 106, 203, 190, 57, 74, 76, 88, 207],
      [208, 239, 170, 251, 67, 77, 51, 133, 69, 249, 2, 127, 80, 60, 159, 168],
      [81, 163, 64, 143, 146, 157, 56, 245, 188, 182, 218, 33, 16, 255, 243, 210],
      [205, 12, 19, 236, 95, 151, 68, 23, 196, 167, 126, 61, 100, 93, 25, 115],
      [96, 129, 79, 220, 34, 42, 144, 136, 70, 238, 184, 20, 222, 94, 11, 219],
      [224, 50, 58, 10, 73, 6, 36, 92, 194, 211, 172, 98, 145, 149, 228, 121],
      [231, 200, 55, 109, 141, 213, 78, 169, 108, 86, 244, 234, 101, 122, 174, 8],
      [186, 120, 37, 46, 28, 166, 180, 198, 232, 221, 116, 31, 75, 189, 139, 138],
      [112, 62, 181, 102, 72, 3, 246, 14, 97, 53, 87, 185, 134, 193, 29, 158],
      [225, 248, 152, 17, 105, 217, 142, 148, 155, 30, 135, 233, 206, 85, 40, 223],
      [140, 161, 137, 13, 191, 230, 66, 104, 65, 153, 45, 15, 176, 84, 187, 22]]"

fun lookup :: "'a \<Rightarrow> 'a list \<Rightarrow> int \<Rightarrow> 'a" where
  "lookup d [] i = d"
| "lookup d (x # xs) i = (if i = 0 then x else lookup d xs (i - 1))"

definition sub_byte :: "int \<Rightarrow> int" where
  "sub_byte b = lookup 0 (lookup [] sbox (b div 16)) (b mod 16)"

definition sub_bytes :: "int list \<Rightarrow> int list" where
  "sub_bytes st = map sub_byte st"

definition shift_rows :: "int list \<Rightarrow> int list" where
  "shift_rows st = map (lookup 0 st) [0, 5, 10, 15, 4, 9, 14, 3, 8, 13, 2, 7, 12, 1, 6, 11]"

definition xtime :: "int \<Rightarrow> int" where
  "xtime b = (if 128 \<le> b then xor (2 * b - 256) 27 else 2 * b)"

fun mix_columns :: "int list \<Rightarrow> int list" where
  "mix_columns (a # b # c # d # rest) =
     [xor (xor (xtime a) (xor (xtime b) b)) (xor c d),
      xor (xor a (xtime b)) (xor (xor (xtime c) c) d),
      xor (xor a b) (xor (xtime c) (xor (xtime d) d)),
      xor (xor (xor (xtime a) a) b) (xor c (xtime d))] @ mix_columns rest"
| "mix_columns short = []"

definition add_round_key :: "int list \<Rightarrow> int list \<Rightarrow> int list" where
  "add_round_key rk st = map2 xor st rk"

text \<open>
  Word \<open>i\<close> of the expanded key from the word before it: rotated, substituted and combined
  with the round constant at every eighth word, substituted at every fourth in between.
\<close>

definition next_word :: "nat \<Rightarrow> int list \<Rightarrow> int list" where
  "next_word i prev =
     (if i mod 8 = 0
      then map2 xor (sub_bytes (drop 1 prev @ take 1 prev)) [2 ^ (i div 8 - 1), 0, 0, 0]
      else if i mod 8 = 4 then sub_bytes prev
      else prev)"

fun key_words :: "nat \<Rightarrow> nat \<Rightarrow> int list \<Rightarrow> int list" where
  "key_words 0 i last8 = []"
| "key_words (Suc n) i last8 =
     (let w = map2 xor (take 4 last8) (next_word i (drop 28 last8))
      in w @ key_words n (Suc i) (drop 4 last8 @ w))"

definition key_expansion :: "int list \<Rightarrow> int list" where
  "key_expansion key = key @ key_words 52 8 key"

fun rounds :: "nat \<Rightarrow> int list \<Rightarrow> int list \<Rightarrow> int list" where
  "rounds 0 w st = add_round_key (take 16 w) (shift_rows (sub_bytes st))"
| "rounds (Suc n) w st =
     rounds n (drop 16 w)
       (add_round_key (take 16 w) (mix_columns (shift_rows (sub_bytes st))))"

definition cipher :: "int list \<Rightarrow> int list \<Rightarrow> int list" where
  "cipher key input =
     (let w = key_expansion key in rounds 13 (drop 16 w) (add_round_key (take 16 w) input))"

definition aes256 :: "buffer \<Rightarrow> block \<Rightarrow> block" where
  "aes256 key b =
     block_of_bytes (map of_int (cipher (map uint key) (map uint (bytes_of_block b))))"

text \<open>The small runtime with AES-256-GCM for its cipher.\<close>

definition aes_runtime :: runtime where
  "aes_runtime = gcm_runtime aes256"

section \<open>PBKDF2 over a pseudorandom function\<close>







section \<open>What the theorems ask of the runtime\<close>

text \<open>
  A key that \<^verbatim>\<open>crypto.pbkdf2\<close> calls back with has \<open>keylen\<close> bytes; for a string password,
  a positive number of iterations and the digest SHA-256 it does call back with a key; a
  password of another JSON type it refuses. AES-256-GCM with a 32-byte key and a 12-byte
  nonce encrypts, yields a 16-byte tag, and opens what it sealed. Decoding the base64 of a
  buffer gives the buffer.
\<close>

definition pbkdf2_contract :: "runtime \<Rightarrow> bool" where
  "pbkdf2_contract R =
     (\<forall>password salt iterations keylen digest key.
        pbkdf2 R password salt iterations keylen digest = Inr key \<longrightarrow> length key = keylen)"



definition gcm_contract :: "runtime \<Rightarrow> bool" where
  "gcm_contract R =
     (\<forall>key iv plain. length key = 32 \<longrightarrow> length iv = 12 \<longrightarrow>
        (\<exists>enc tag. gcm_seal R key iv plain = Inr (enc, tag) \<and> length tag = 16
                   \<and> gcm_open R key iv tag enc = Inr plain))"

definition base64_contract :: "runtime \<Rightarrow> bool" where
  "base64_contract R = (\<forall>buf. from_base64 R (to_base64 R buf) = buf)"

section \<open>Concrete inputs\<close>

definition example_key :: buffer where
  "example_key = replicate 32 107"

definition example_iv :: buffer where
  "example_iv = replicate 12 110"

text \<open>
  The state after the first start of the script (lines 57-71): the files it writes when
  they are missing, at time \<open>t\<close>, in a process whose \<^verbatim>\<open>JWT_SECRET\<close> is \<open>secret\<close>.
\<close>

definition first_run :: "nat \<Rightarrow> string \<Rightarrow> server" where
  "first_run t secret =
     \<lparr>jwt_secret = secret,
      meta_file = \<lparr>createdAt = t, version = ''thehaydensphere.v3'', pinHash = None,
                   encryptionProfile = Some ''client-only''\<rparr>,
      notes_index = [],
      note_dirs = {},
      version_dirs = Map.empty,
      history_log = []\<rparr>"

definition example_server :: server where
  "example_server = first_run 1700000000000 ''secret''"

text \<open>
  The kind of an error response: its status and its \<^verbatim>\<open>error\<close> field. The \<^verbatim>\<open>detail\<close> field, where
  there is one, is the message of the exception.
\<close>

definition error_kind :: "outcome \<Rightarrow> (nat \<times> json option) option" where
  "error_kind out =
     (case out of
        Reply code (JObj kvs) \<Rightarrow> Some (code, map_of kvs ''error'')
      | _ \<Rightarrow> None)"

text \<open>
  The tag that AES-256-GCM gives the empty ciphertext under the key of 32 bytes \<open>0x6b\<close> and
  the nonce of 12 bytes \<open>0x6e\<close>, and two bodies for \<^verbatim>\<open>/api/v3/enc/decrypt\<close> with the base64
  of that key and nonce. The ciphertext of the first is the base64 of 16 bytes \<open>0x78\<close>, which
  are not the tag; the ciphertext of the second is the base64 of the tag, so that it
  decrypts, to the empty buffer, which is not a gzip stream.
\<close>

definition example_tag :: buffer where
  "example_tag = [77, 107, 3, 153, 153, 255, 50, 232, 128, 59, 12, 138, 18, 59, 49, 86]"

definition bad_tag_body :: decrypt_body where
  "bad_tag_body =
     \<lparr>keyBase64 = Some ''a2tra2tra2tra2tra2tra2tra2tra2tra2tra2tra2s='',
      dec_ciphertext = Some ''eHh4eHh4eHh4eHh4eHh4eA=='',
      dec_iv = Some ''bm5ubm5ubm5ubm5u''\<rparr>"

definition not_gzip_body :: decrypt_body where
  "not_gzip_body =
     \<lparr>keyBase64 = Some ''a2tra2tra2tra2tra2tra2tra2tra2tra2tra2tra2s='',
      dec_ciphertext = Some ''TWsDmZn/MuiAOwyKEjsxVg=='',
      dec_iv = Some ''bm5ubm5ubm5ubm5u''\<rparr>"

text \<open>The three rejections of \<^verbatim>\<open>setup-pin\<close>.\<close>

definition pin_rejected :: "outcome \<Rightarrow> bool" where
  "pin_rejected out =
     (out = Reply 400 (JObj [(''error'', JStr ''pin required (min 6 chars recommended)'')])
      \<or> out = Reply 400 (JObj [(''error'', JStr ''currentPin required to change pin'')])
      \<or> out = Reply 403 (JObj [(''error'', JStr ''invalid currentPin'')]))"

definition example_pin_surroundings :: pin_surroundings where
  "example_pin_surroundings =
     \<lparr>pin_salt_bytes = [1, 2, 3, 4], pin_now = 1700000000000, pin_log_now = 1700000000001\<rparr>"

definition first_pin_body :: pin_body where
  "first_pin_body = \<lparr>pin = Some ''123456'', currentPin = None\<rparr>"

definition second_pin_body :: pin_body where
  "second_pin_body = \<lparr>pin = Some ''654321'', currentPin = Some ''000000''\<rparr>"

definition pin_set_server :: server where
  "pin_set_server =
     snd (setup_pin small_runtime example_pin_surroundings example_server first_pin_body)"

text \<open>
  The content of the file \<open>f\<close> among the versions of note \<open>nid\<close>, if there is one; and
  whether a request carries a payload that one of the two branches of the handler stores.
\<close>

definition stored_version :: "server \<Rightarrow> string \<Rightarrow> string \<Rightarrow> buffer option" where
  "stored_version s nid f =
     (case version_dirs s nid of None \<Rightarrow> None | Some dir \<Rightarrow> map_of dir f)"

definition with_payload :: "server \<Rightarrow> note_body \<Rightarrow> bool" where
  "with_payload s body =
     (has_plaintext (body_blob body)
        \<and> resolve_profile (encryptionMode body) (meta_file s) = ''server-assisted''
      \<or> has_ciphertext (body_blob body))"

text \<open>
  A run of the note handler within the millisecond \<open>t\<close>, and one shortly after the first
  start; a body whose blob is plaintext and one whose blob is a client's ciphertext \<open>c\<close>, both for the note \<open>n1\<close> and
  without a declared policy, so that the default of the meta file, client-only, applies.
\<close>

definition at_time :: "nat \<Rightarrow> surroundings" where
  "at_time t =
     \<lparr>uuid = ''0b0e7a4e-3f1c-4c59-9d6a-1f2e3d4c5b6a'',
      now_created = t, now_updated = t, now_index_log = t, now_version = t,
      now_create_log = t, random_iv = example_iv\<rparr>"

definition example_surroundings :: surroundings where
  "example_surroundings = at_time 1700000000001"

definition plaintext_body :: note_body where
  "plaintext_body =
     \<lparr>body_id = Some ''n1'', title = Some ''Diary'', body_type = None, tags = None,
      summary = None,
      body_blob = Some \<lparr>plaintext = Some ''hello world'', ciphertext = None, blob_iv = None,
                        blob_meta = None\<rparr>,
      encryptionMode = None\<rparr>"

definition ciphertext_body :: "string \<Rightarrow> note_body" where
  "ciphertext_body c =
     \<lparr>body_id = Some ''n1'', title = Some ''Diary'', body_type = None, tags = None,
      summary = None,
      body_blob = Some \<lparr>plaintext = None, ciphertext = Some c,
                        blob_iv = Some ''bm9uY2Vub25jZTEy'', blob_meta = None\<rparr>,
      encryptionMode = None\<rparr>"

definition hybrid_body :: note_body where
  "hybrid_body = (ciphertext_body ''QUFBQQ=='')\<lparr>encryptionMode := Some ''hybrid''\<rparr>"

text \<open>The small runtime, but with a key derivation that throws.\<close>

definition scrypt_failing_runtime :: runtime where
  "scrypt_failing_runtime =
     small_runtime\<lparr>scryptSync :=
       (\<lambda>password salt keylen. Inl (Error ''Invalid scrypt params: memory limit exceeded''))\<rparr>"

text \<open>The response of line 418.\<close>

definition ok_reply :: "note_entry \<Rightarrow> outcome" where
  "ok_reply entry = Reply 200 (JObj [(''ok'', JBool True), (''note'', entry_json entry)])"

text \<open>
  The state after one write to \<open>n1\<close>; after a second write in the same millisecond as the
  first; after a second write one millisecond later; and after three writes at given times.
\<close>

definition first_write :: server where
  "first_write =
     snd (post_notes small_runtime example_surroundings example_server
            (ciphertext_body ''QUFBQQ==''))"

definition colliding_write :: server where
  "colliding_write =
     snd (post_notes small_runtime example_surroundings first_write
            (ciphertext_body ''QkJCQg==''))"

definition later_write :: server where
  "later_write =
     snd (post_notes small_runtime (at_time 1700000000002)
            first_write (ciphertext_body ''QkJCQg==''))"

definition three_writes :: "nat \<Rightarrow> nat \<Rightarrow> nat \<Rightarrow> server" where
  "three_writes t1 t2 t3 =
     snd (post_notes small_runtime (at_time t3)
       (snd (post_notes small_runtime (at_time t2)
         (snd (post_notes small_runtime (at_time t1)
            example_server (ciphertext_body ''QUFBQQ=='')))
          (ciphertext_body ''QkJCQg=='')))
        (ciphertext_body ''Q0NDQw==''))"

section \<open>The small runtime meets the contracts\<close>

lemma with_password_key: "with_password derive password = Inr key \<Longrightarrow> \<exists>str. key = derive str"
  by (cases password) auto

lemma small_runtime_pbkdf2: "pbkdf2_contract small_runtime"
  by (auto simp add: pbkdf2_contract_def small_runtime_def small_kdf_def
        dest!: with_password_key)

lemma length_tag_of: "length (tag_of key iv enc) = 16"
  by (simp add: tag_of_def)

lemma unmask: "map ((\<lambda>b. xor b m) \<circ> (\<lambda>b. xor b m)) plain = (plain :: buffer)"
  by (induction plain) (simp_all add: xor.assoc)

lemma small_runtime_gcm: "gcm_contract small_runtime"
  by (simp add: gcm_contract_def small_runtime_def small_seal_def small_open_def Let_def
        length_tag_of unmask)

lemma index_of_nth: "distinct xs \<Longrightarrow> n < length xs \<Longrightarrow> index_of (xs ! n) xs = Some n"
proof (induction xs arbitrary: n)
  case Nil
  then show ?case by simp
next
  case (Cons x xs)
  then show ?case by (cases n) auto
qed

lemma index_of_absent: "x \<notin> set xs \<Longrightarrow> index_of x xs = None"
  by (induction xs) auto

lemma distinct_alphabet: "distinct base64_alphabet" and length_alphabet: "length base64_alphabet = 64"
  by (simp_all add: base64_alphabet_def)

lemma char_sextet_char: "n < 64 \<Longrightarrow> char_sextet (sextet_char n) = Some n"
  by (simp add: char_sextet_def sextet_char_def index_of_nth distinct_alphabet length_alphabet)

lemma char_sextet_pad: "char_sextet CHR ''='' = None"
  by (simp add: char_sextet_def base64_alphabet_def)

lemma split_hi: "r < m \<Longrightarrow> (q * m + r) div m = (q :: nat)"
  by simp

lemma split_lo: "r < m \<Longrightarrow> (q * m + r) mod m = (r :: nat)"
  by simp

lemma byte_parts:
  fixes a b c :: nat
  assumes "a < 256" and "b < 256" and "c < 256"
  shows "a div 4 < 64" and "a mod 4 * 16 + b div 16 < 64" and "b mod 16 * 4 + c div 64 < 64"
    and "c mod 64 < 64" and "b mod 16 * 4 < 64" and "a mod 4 * 16 < 64"
    and "a div 4 * 4 + (a mod 4 * 16 + b div 16) div 16 = a"
    and "(a mod 4 * 16 + b div 16) mod 16 * 16 + (b mod 16 * 4 + c div 64) div 4 = b"
    and "(b mod 16 * 4 + c div 64) mod 4 * 64 + c mod 64 = c"
    and "(a mod 4 * 16 + b div 16) mod 16 * 16 + (b mod 16 * 4) div 4 = b"
    and "a div 4 * 4 + (a mod 4 * 16) div 16 = a"
proof -
  define a1 a0 b1 b0 c1 c0 where "a1 = a div 4" and "a0 = a mod 4" and "b1 = b div 16"
    and "b0 = b mod 16" and "c1 = c div 64" and "c0 = c mod 64"
  have a1: "a1 < 64" and b1: "b1 < 16" and c1: "c1 < 4"
    using assms by (simp_all add: a1_def b1_def c1_def div_less_iff_less_mult)
  have a0: "a0 < 4" and b0: "b0 < 16" and c0: "c0 < 64"
    by (simp_all add: a0_def b0_def c0_def)
  have a: "a1 * 4 + a0 = a" and b: "b1 * 16 + b0 = b" and c: "c1 * 64 + c0 = c"
    by (simp_all add: a1_def a0_def b1_def b0_def c1_def c0_def)
  have "a1 < 64" and "a0 * 16 + b1 < 64" and "b0 * 4 + c1 < 64" and "c0 < 64"
    and "b0 * 4 < 64" and "a0 * 16 < 64"
    using a1 a0 b1 b0 c1 c0 by linarith+
  moreover have "a1 * 4 + (a0 * 16 + b1) div 16 = a"
    and "(a0 * 16 + b1) mod 16 * 16 + (b0 * 4 + c1) div 4 = b"
    and "(b0 * 4 + c1) mod 4 * 64 + c0 = c"
    by (simp_all only: split_hi [OF b1] split_lo [OF b1] split_hi [OF c1] split_lo [OF c1] a b c)
  moreover have "(a0 * 16 + b1) mod 16 * 16 + (b0 * 4) div 4 = b"
    and "a1 * 4 + (a0 * 16) div 16 = a"
    by (simp_all only: split_lo [OF b1] nonzero_mult_div_cancel_right a b)
  ultimately show "a div 4 < 64" and "a mod 4 * 16 + b div 16 < 64"
    and "b mod 16 * 4 + c div 64 < 64"
    and "c mod 64 < 64" and "b mod 16 * 4 < 64" and "a mod 4 * 16 < 64"
    and "a div 4 * 4 + (a mod 4 * 16 + b div 16) div 16 = a"
    and "(a mod 4 * 16 + b div 16) mod 16 * 16 + (b mod 16 * 4 + c div 64) div 4 = b"
    and "(b mod 16 * 4 + c div 64) mod 4 * 64 + c mod 64 = c"
    and "(a mod 4 * 16 + b div 16) mod 16 * 16 + (b mod 16 * 4) div 4 = b"
    and "a div 4 * 4 + (a mod 4 * 16) div 16 = a"
    unfolding a1_def a0_def b1_def b0_def c1_def c0_def by blast+
qed

lemma unat_byte: "unat (x :: byte) < 256"
  using unsigned_less [of x, where ?'a = nat] by simp

lemma decode_quad:
  assumes "s1 < 64" and "s2 < 64" and "s3 < 64" and "s4 < 64"
  shows "base64_decode (sextet_char s1 # sextet_char s2 # sextet_char s3 # sextet_char s4 # rest)
     = of_nat (s1 * 4 + s2 div 16) # of_nat (s2 mod 16 * 16 + s3 div 4)
         # of_nat (s3 mod 4 * 64 + s4) # base64_decode rest"
  by (simp only: base64_decode.simps char_sextet_char [OF assms(1)] char_sextet_char [OF assms(2)]
        char_sextet_char [OF assms(3)] char_sextet_char [OF assms(4)] prod.case option.case
        list.case)

lemma decode_triple:
  assumes "s1 < 64" and "s2 < 64" and "s3 < 64"
  shows "base64_decode [sextet_char s1, sextet_char s2, sextet_char s3, CHR ''='']
     = [of_nat (s1 * 4 + s2 div 16), of_nat (s2 mod 16 * 16 + s3 div 4)]"
  by (simp only: base64_decode.simps char_sextet_char [OF assms(1)] char_sextet_char [OF assms(2)]
        char_sextet_char [OF assms(3)] char_sextet_pad prod.case option.case list.case)

lemma decode_pair:
  assumes "s1 < 64" and "s2 < 64"
  shows "base64_decode [sextet_char s1, sextet_char s2, CHR ''='', CHR ''='']
     = [of_nat (s1 * 4 + s2 div 16)]"
  by (simp only: base64_decode.simps char_sextet_char [OF assms(1)] char_sextet_char [OF assms(2)]
        char_sextet_pad prod.case option.case list.case)

lemma base64_roundtrip: "base64_decode (base64_encode buf) = buf"
proof (induction buf rule: base64_encode.induct)
  case (1 x y z rest)
  define a b c where "a = unat x" and "b = unat y" and "c = unat z"
  have bytes: "of_nat a = x" "of_nat b = y" "of_nat c = z"
    by (simp_all add: a_def b_def c_def)
  have "a < 256" and "b < 256" and "c < 256"
    by (simp_all add: a_def b_def c_def unat_byte)
  note p = byte_parts [OF this]
  have ih: "base64_decode (base64_encode rest) = rest"
    using "1" by simp
  have "base64_encode (x # y # z # rest) =
      sextet_char (a div 4) # sextet_char (a mod 4 * 16 + b div 16)
        # sextet_char (b mod 16 * 4 + c div 64) # sextet_char (c mod 64) # base64_encode rest"
    by (simp only: base64_encode.simps Let_def a_def b_def c_def append.simps)
  then show ?case
    by (simp only: decode_quad [OF p(1-4)] p(7-9) bytes ih)
next
  case (2 x y)
  define a b where "a = unat x" and "b = unat y"
  have bytes: "of_nat a = x" "of_nat b = y"
    by (simp_all add: a_def b_def)
  have "a < 256" and "b < 256"
    by (simp_all add: a_def b_def unat_byte)
  note p = byte_parts [OF this this(2)]
  have "base64_encode [x, y] =
      [sextet_char (a div 4), sextet_char (a mod 4 * 16 + b div 16),
       sextet_char (b mod 16 * 4), CHR ''='']"
    by (simp only: base64_encode.simps Let_def a_def b_def)
  then show ?case
    by (simp only: decode_triple [OF p(1,2,5)] p(7,10) bytes)
next
  case (3 x)
  define a where "a = unat x"
  have bytes: "of_nat a = x"
    by (simp add: a_def)
  have "a < 256"
    by (simp add: a_def unat_byte)
  note p = byte_parts [OF this this this]
  have "base64_encode [x] =
      [sextet_char (a div 4), sextet_char (a mod 4 * 16), CHR ''='', CHR ''='']"
    by (simp only: base64_encode.simps Let_def a_def)
  then show ?case
    by (simp only: decode_pair [OF p(1,6)] p(11) bytes)
next
  case 4
  show ?case by simp
qed

lemma small_runtime_base64: "base64_contract small_runtime"
  by (simp add: base64_contract_def small_runtime_def base64_roundtrip)

section \<open>Galois/Counter Mode opens what it sealed\<close>

lemma length_bytes_of_block: "length (bytes_of_block w) = 16"
  by (simp add: bytes_of_block_def)

lemma length_keystream: "length (keystream e ctr n) = 16 * n"
  by (induction n arbitrary: ctr) (simp_all add: length_bytes_of_block)

lemma length_gctr: "length (gctr e ctr data) = length data"
  by (simp add: gctr_def length_keystream)

lemma xor_twice:
  "length data \<le> length ks \<Longrightarrow> map2 xor (map2 xor data ks) ks = (data :: buffer)"
proof (induction data arbitrary: ks)
  case Nil
  show ?case by simp
next
  case (Cons d data)
  then show ?case by (cases ks) (simp_all add: xor.assoc)
qed

lemma gctr_inverse: "gctr e ctr (gctr e ctr data) = data"
proof -
  have "length data \<le> length (keystream e ctr ((length data + 15) div 16))"
    by (simp add: length_keystream)
  then show ?thesis
    by (simp add: gctr_def length_keystream xor_twice)
qed

lemma gcm_roundtrip:
  assumes "length key = 32" and "iv \<noteq> []"
  shows "\<exists>ct tag. gcm_encrypt aes key iv plain = Inr (ct, tag) \<and> length tag = 16
           \<and> gcm_decrypt aes key iv tag ct = Inr plain"
  using assms
  by (simp add: gcm_encrypt_def gcm_decrypt_def Let_def gcm_tag_def length_bytes_of_block
        gctr_inverse)

lemma gcm_runtime_contract: "gcm_contract (gcm_runtime aes)"
  unfolding gcm_contract_def
proof (intro allI impI)
  fix key iv plain :: buffer
  assume "length key = 32" and "length iv = 12"
  then have "iv \<noteq> []" by auto
  with \<open>length key = 32\<close> gcm_roundtrip [of key iv aes plain]
  show "\<exists>enc tag. gcm_seal (gcm_runtime aes) key iv plain = Inr (enc, tag) \<and> length tag = 16
          \<and> gcm_open (gcm_runtime aes) key iv tag enc = Inr plain"
    by (simp add: gcm_runtime_def)
qed

lemma gcm_runtime_base64: "base64_contract (gcm_runtime aes)"
  using small_runtime_base64 by (simp add: base64_contract_def gcm_runtime_def)

section \<open>PBKDF2 returns a key of the length asked for\<close>












section \<open>Encryption and decryption are inverse\<close>

lemma slice_tag:
  "length tag = 16 \<Longrightarrow>
     buffer_slice (enc @ tag) (int (length (enc @ tag)) - 16) (int (length (enc @ tag))) = tag"
  by (simp add: buffer_slice_def clamp_index_def Let_def)

lemma slice_body:
  "length tag = 16 \<Longrightarrow> buffer_slice (enc @ tag) 0 (int (length (enc @ tag)) - 16) = enc"
  by (simp add: buffer_slice_def clamp_index_def Let_def)

text \<open>
  C4. For every payload \<open>P\<close>, every 32-byte key \<open>K\<close> and every 12-byte nonce drawn by
  \<^verbatim>\<open>aesGcmEncrypt\<close>, the encryption succeeds and \<^verbatim>\<open>aesGcmDecrypt\<close> with the same key, applied
  to the ciphertext and nonce it returned, gives back exactly \<open>P\<close>. The cipher and the
  base64 coding are the runtime's: the theorem asks that the cipher opens what it sealed,
  which Galois/Counter Mode does over any block function (\<open>gcm_runtime_contract\<close>), and
  that decoding inverts encoding. What the script adds, appending the tag and cutting the
  last 16 bytes off again, is inverse on top of them.
\<close>

theorem aesGcm_roundtrip:
  assumes gcm: "gcm_contract R" and b64: "base64_contract R"
    and key: "length K = 32" and nonce: "length iv = 12"
  shows "\<exists>e. aesGcmEncrypt R iv K P = Inr e
            \<and> aesGcmDecrypt R K (enc_ciphertext e) (enc_iv e) = Inr P"
proof -
  from gcm key nonce obtain enc tag where
    seal: "gcm_seal R K iv P = Inr (enc, tag)" and tag: "length tag = 16"
    and unseal: "gcm_open R K iv tag enc = Inr P"
    unfolding gcm_contract_def by blast
  let ?e = "\<lparr>enc_ciphertext = to_base64 R (enc @ tag), enc_iv = to_base64 R iv\<rparr>"
  have "aesGcmEncrypt R iv K P = Inr ?e"
    by (simp add: aesGcmEncrypt_def seal)
  moreover have "from_base64 R (to_base64 R (enc @ tag)) = enc @ tag"
    and "from_base64 R (to_base64 R iv) = iv"
    using b64 unfolding base64_contract_def by blast+
  then have "aesGcmDecrypt R K (enc_ciphertext ?e) (enc_iv ?e) = Inr P"
    using slice_tag [OF tag, of enc] slice_body [OF tag, of enc] unseal
    by (simp add: aesGcmDecrypt_def Let_def)
  ultimately show ?thesis by blast
qed

theorem aesGcm_roundtrip_witness:
  "gcm_contract (gcm_runtime small_block) \<and> base64_contract (gcm_runtime small_block)
   \<and> length example_key = 32 \<and> length example_iv = 12
   \<and> (\<exists>e. aesGcmEncrypt (gcm_runtime small_block) example_iv example_key [104, 105] = Inr e
          \<and> aesGcmDecrypt (gcm_runtime small_block) example_key (enc_ciphertext e) (enc_iv e)
              = Inr [104, 105])"
proof -
  have k: "length example_key = 32" and n: "length example_iv = 12"
    by (simp_all add: example_key_def example_iv_def)
  show ?thesis
    using aesGcm_roundtrip
        [OF gcm_runtime_contract [of small_block] gcm_runtime_base64 [of small_block] k n,
          of "[104, 105]"]
      gcm_runtime_contract [of small_block] gcm_runtime_base64 [of small_block] k n
    by simp
qed

section \<open>Key derivation\<close>






section \<open>AES-256-GCM on the example requests\<close>

text \<open>The block function on the example of FIPS 197, appendix C.3.\<close>

lemma cipher_fips197:
  "cipher (map int [0..<32])
     [0, 17, 34, 51, 68, 85, 102, 119, 136, 153, 170, 187, 204, 221, 238, 255] =
   [142, 162, 183, 202, 81, 103, 69, 191, 234, 252, 73, 144, 75, 73, 96, 137]"
  by code_simp

lemma cipher_example:
  "cipher (replicate 32 107) (replicate 12 110 @ [0, 0, 0, 1]) =
   [77, 107, 3, 153, 153, 255, 50, 232, 128, 59, 12, 138, 18, 59, 49, 86]"
  by code_simp

lemma gf_fold_zero: "fst (fold (gf_step 0) xs (0, v)) = 0"
  by (induction xs arbitrary: v) (simp_all add: gf_step_def)

lemma gf_mult_zero: "gf_mult 0 y = 0"
  by (simp add: gf_mult_def gf_fold_zero)

lemma example_counter:
  "map uint (bytes_of_block (or (block_of_bytes example_iv) 1)) =
     replicate 12 110 @ [0, 0, 0, 1]"
  by code_simp

lemma example_key_bytes: "map uint example_key = replicate 32 107"
  by (simp add: example_key_def)

lemma example_tag_block:
  "bytes_of_block (block_of_bytes
     (map of_int [77, 107, 3, 153, 153, 255, 50, 232, 128, 59, 12, 138, 18, 59, 49, 86]))
   = example_tag"
  by code_simp

lemma gcm_tag_example: "gcm_tag (aes256 example_key) h (counter0 h example_iv) [] = example_tag"
proof -
  have "ghash h (blocks [] @ [of_nat (8 * length ([] :: buffer))]) = 0"
    by (simp add: ghash_def gf_mult_zero)
  moreover have "counter0 h example_iv = or (block_of_bytes example_iv) 1"
    by (simp add: counter0_def example_iv_def)
  moreover have "bytes_of_block (aes256 example_key (or (block_of_bytes example_iv) 1))
                   = example_tag"
    by (simp only: aes256_def example_counter example_key_bytes cipher_example
          example_tag_block)
  ultimately show ?thesis
    by (simp add: gcm_tag_def)
qed

lemma gcm_decrypt_example:
  "gcm_decrypt aes256 example_key example_iv tag [] =
     (if tag \<noteq> example_tag
      then Inl (Error ''Unsupported state or unable to authenticate data'')
      else Inr [])"
proof -
  have "length example_key = 32" and "example_iv \<noteq> []"
    by (simp_all add: example_key_def example_iv_def)
  then show ?thesis
    by (simp add: gcm_decrypt_def Let_def gcm_tag_example gctr_def)
qed

lemma example_base64:
  "base64_decode ''a2tra2tra2tra2tra2tra2tra2tra2tra2tra2tra2s='' = example_key"
  "base64_decode ''bm5ubm5ubm5ubm5u'' = example_iv"
  "base64_decode ''TWsDmZn/MuiAOwyKEjsxVg=='' = example_tag"
  "base64_decode ''eHh4eHh4eHh4eHh4eHh4eA=='' = replicate 16 120"
  by code_simp+

lemma aes_runtime_fields:
  "from_base64 aes_runtime = base64_decode"
  "gcm_open aes_runtime = gcm_decrypt aes256"
  "gunzipSync aes_runtime = small_gunzip"
  by (simp_all add: aes_runtime_def gcm_runtime_def small_runtime_def)

lemma slices_of_tag:
  "length tag = 16 \<Longrightarrow> buffer_slice tag 0 16 = tag"
  "buffer_slice tag 0 0 = []"
  by (simp_all add: buffer_slice_def clamp_index_def Let_def)

lemma aesGcmDecrypt_not_gzip:
  "aesGcmDecrypt aes_runtime (from_base64 aes_runtime (the (keyBase64 not_gzip_body)))
     (the (dec_ciphertext not_gzip_body)) (the (dec_iv not_gzip_body)) = Inr []"
proof -
  have "length example_tag = 16"
    by (simp add: example_tag_def)
  then show ?thesis
    by (simp add: aesGcmDecrypt_def Let_def not_gzip_body_def aes_runtime_fields example_base64
          slices_of_tag gcm_decrypt_example del: base64_decode.simps)
qed

lemma aesGcmDecrypt_bad_tag:
  "aesGcmDecrypt aes_runtime (from_base64 aes_runtime (the (keyBase64 bad_tag_body)))
     (the (dec_ciphertext bad_tag_body)) (the (dec_iv bad_tag_body))
   = Inl (Error ''Unsupported state or unable to authenticate data'')"
proof -
  have "length (replicate 16 (120 :: byte)) = 16"
    by simp
  moreover have "replicate 16 (120 :: byte) \<noteq> example_tag"
    by code_simp
  ultimately have "length (replicate 16 (120 :: byte)) = 16 \<and> replicate 16 (120 :: byte) \<noteq> example_tag"
    by blast
  then show ?thesis
    by (simp add: aesGcmDecrypt_def Let_def bad_tag_body_def aes_runtime_fields example_base64
          slices_of_tag gcm_decrypt_example del: base64_decode.simps replicate.simps)
qed

lemma gunzip_empty: "gunzipBufferSync aes_runtime [] = Inl (Error ''unexpected end of file'')"
  by (simp add: gunzipBufferSync_def aes_runtime_fields)

section \<open>Failures of the decrypt endpoint\<close>

text \<open>
  C5, as the code has it. The handler has a single \<^verbatim>\<open>catch\<close>: when the key, ciphertext and
  nonce are present and either the decryption throws \<open>e\<close> (the tag does not match) or the
  decryption succeeds and the decompression throws \<open>e\<close> (the stream is malformed), the read
  is aborted with the same response, status 500 and error \<^verbatim>\<open>decrypt failed\<close>; the message of
  \<open>e\<close>, passed on in \<^verbatim>\<open>detail\<close>, is all that tells the two apart.
\<close>

theorem decrypt_failures_share_kind:
  assumes "truthy (keyBase64 body)" and "truthy (dec_ciphertext body)" and "truthy (dec_iv body)"
    and "aesGcmDecrypt R (from_base64 R (the (keyBase64 body)))
           (the (dec_ciphertext body)) (the (dec_iv body)) = Inl e
         \<or> (\<exists>plainGz. aesGcmDecrypt R (from_base64 R (the (keyBase64 body)))
                (the (dec_ciphertext body)) (the (dec_iv body)) = Inr plainGz
              \<and> gunzipBufferSync R plainGz = Inl e)"
  shows "enc_decrypt R body =
           Reply 500 (JObj [(''error'', JStr ''decrypt failed''), (''detail'', JStr (message e))])"
  using assms by (auto simp add: enc_decrypt_def decrypt_failed_def Let_def)

theorem decrypt_failures_share_kind_witness:
  "enc_decrypt aes_runtime not_gzip_body =
     Reply 500 (JObj [(''error'', JStr ''decrypt failed''),
                      (''detail'', JStr (message (Error ''unexpected end of file'')))])
   \<and> enc_decrypt aes_runtime bad_tag_body =
     Reply 500 (JObj [(''error'', JStr ''decrypt failed''),
                      (''detail'', JStr (message
                         (Error ''Unsupported state or unable to authenticate data'')))])"
proof
  show "enc_decrypt aes_runtime not_gzip_body =
     Reply 500 (JObj [(''error'', JStr ''decrypt failed''),
                      (''detail'', JStr (message (Error ''unexpected end of file'')))])"
  proof (rule decrypt_failures_share_kind)
    show "truthy (keyBase64 not_gzip_body)" by (simp add: not_gzip_body_def)
    show "truthy (dec_ciphertext not_gzip_body)" by (simp add: not_gzip_body_def)
    show "truthy (dec_iv not_gzip_body)" by (simp add: not_gzip_body_def)
    from aesGcmDecrypt_not_gzip gunzip_empty show
      "aesGcmDecrypt aes_runtime (from_base64 aes_runtime (the (keyBase64 not_gzip_body)))
         (the (dec_ciphertext not_gzip_body)) (the (dec_iv not_gzip_body))
         = Inl (Error ''unexpected end of file'')
       \<or> (\<exists>plainGz.
            aesGcmDecrypt aes_runtime (from_base64 aes_runtime (the (keyBase64 not_gzip_body)))
              (the (dec_ciphertext not_gzip_body)) (the (dec_iv not_gzip_body)) = Inr plainGz
            \<and> gunzipBufferSync aes_runtime plainGz = Inl (Error ''unexpected end of file''))"
      by blast
  qed
  show "enc_decrypt aes_runtime bad_tag_body =
     Reply 500 (JObj [(''error'', JStr ''decrypt failed''),
                      (''detail'', JStr (message
                         (Error ''Unsupported state or unable to authenticate data'')))])"
  proof (rule decrypt_failures_share_kind)
    show "truthy (keyBase64 bad_tag_body)" by (simp add: bad_tag_body_def)
    show "truthy (dec_ciphertext bad_tag_body)" by (simp add: bad_tag_body_def)
    show "truthy (dec_iv bad_tag_body)" by (simp add: bad_tag_body_def)
    from aesGcmDecrypt_bad_tag show
      "aesGcmDecrypt aes_runtime (from_base64 aes_runtime (the (keyBase64 bad_tag_body)))
         (the (dec_ciphertext bad_tag_body)) (the (dec_iv bad_tag_body))
         = Inl (Error ''Unsupported state or unable to authenticate data'')
       \<or> (\<exists>plainGz.
            aesGcmDecrypt aes_runtime (from_base64 aes_runtime (the (keyBase64 bad_tag_body)))
              (the (dec_ciphertext bad_tag_body)) (the (dec_iv bad_tag_body)) = Inr plainGz
            \<and> gunzipBufferSync aes_runtime plainGz
                = Inl (Error ''Unsupported state or unable to authenticate data''))"
      by blast
  qed
qed

text \<open>
  The claim as stated fails: under AES-256-GCM, a request whose tag does not match and a
  request that decrypts to bytes that are no gzip stream get responses of the same kind.
\<close>

theorem decrypt_failures_counterexample:
  "enc_decrypt aes_runtime bad_tag_body =
     Reply 500 (JObj [(''error'', JStr ''decrypt failed''),
                      (''detail'', JStr ''Unsupported state or unable to authenticate data'')])
   \<and> enc_decrypt aes_runtime not_gzip_body =
     Reply 500 (JObj [(''error'', JStr ''decrypt failed''),
                      (''detail'', JStr ''unexpected end of file'')])
   \<and> error_kind (enc_decrypt aes_runtime bad_tag_body)
       = error_kind (enc_decrypt aes_runtime not_gzip_body)"
proof -
  have bad: "enc_decrypt aes_runtime bad_tag_body =
     Reply 500 (JObj [(''error'', JStr ''decrypt failed''),
                      (''detail'', JStr ''Unsupported state or unable to authenticate data'')])"
    using aesGcmDecrypt_bad_tag
    by (simp add: enc_decrypt_def decrypt_failed_def Let_def bad_tag_body_def)
  have not_gzip: "enc_decrypt aes_runtime not_gzip_body =
     Reply 500 (JObj [(''error'', JStr ''decrypt failed''),
                      (''detail'', JStr ''unexpected end of file'')])"
    using aesGcmDecrypt_not_gzip gunzip_empty
    by (simp add: enc_decrypt_def decrypt_failed_def Let_def not_gzip_body_def)
  show ?thesis
    unfolding bad not_gzip by (simp add: error_kind_def)
qed

section \<open>Setting the PIN\<close>

text \<open>
  C7. While no PIN hash is stored, a call with a PIN of at least 6 characters succeeds, and
  the state it leaves differs from the one before in the hash that \<^verbatim>\<open>bcrypt.hash\<close> returned
  for the PIN, stored as \<^verbatim>\<open>pinHash\<close>, and in one history line that carries a time only: the
  PIN itself is written to no field. Once a hash is stored, a call that does not come with a
  \<^verbatim>\<open>currentPin\<close> that \<^verbatim>\<open>bcrypt.compare\<close> accepts against it is rejected (400 or 403) and leaves
  the whole state, the meta file included, as it was.
\<close>

theorem setup_pin_first_then_guarded:
  "(\<not> truthy (pinHash (meta_file s)) \<and> pin body = Some p \<and> 6 \<le> length p \<longrightarrow>
      setup_pin R E s body =
        (Reply 200 (JObj [(''ok'', JBool True), (''message'', JStr ''PIN created'')]),
         logHistory (pin_log_now E) ''auth.setupPin''
           (JObj [(''createdAt'', JNum (int (pin_now E)))])
           (s\<lparr>meta_file := (meta_file s)
                \<lparr>pinHash := Some (bcrypt_hash R p BCRYPT_ROUNDS (pin_salt_bytes E))\<rparr>\<rparr>)))
   \<and> (truthy (pinHash (meta_file s))
        \<and> \<not> (truthy (currentPin body)
              \<and> bcrypt_compare R (the (currentPin body)) (the (pinHash (meta_file s)))) \<longrightarrow>
      pin_rejected (fst (setup_pin R E s body)) \<and> snd (setup_pin R E s body) = s)"
  by (auto simp add: setup_pin_def Let_def pin_rejected_def)

theorem setup_pin_witness:
  "fst (setup_pin small_runtime example_pin_surroundings example_server first_pin_body) =
     Reply 200 (JObj [(''ok'', JBool True), (''message'', JStr ''PIN created'')])
   \<and> pinHash (meta_file pin_set_server) = Some (small_bcrypt_hash ''123456'' 12 [1, 2, 3, 4])
   \<and> pin_rejected
       (fst (setup_pin small_runtime example_pin_surroundings pin_set_server second_pin_body))
   \<and> snd (setup_pin small_runtime example_pin_surroundings pin_set_server second_pin_body)
       = pin_set_server"
proof -
  have 1: "\<not> truthy (pinHash (meta_file example_server)) \<and> pin first_pin_body = Some ''123456''
           \<and> 6 \<le> length ''123456''"
    by code_simp
  have 2: "truthy (pinHash (meta_file pin_set_server))
        \<and> \<not> (truthy (currentPin second_pin_body)
              \<and> bcrypt_compare small_runtime (the (currentPin second_pin_body))
                   (the (pinHash (meta_file pin_set_server))))"
    by code_simp
  note a = setup_pin_first_then_guarded
    [of example_server first_pin_body "''123456''" small_runtime example_pin_surroundings,
      THEN conjunct1, rule_format, OF 1]
  note b = setup_pin_first_then_guarded
    [of pin_set_server second_pin_body "''123456''" small_runtime example_pin_surroundings,
      THEN conjunct2, rule_format, OF 2]
  have "pinHash (meta_file pin_set_server) = Some (small_bcrypt_hash ''123456'' 12 [1, 2, 3, 4])"
    unfolding pin_set_server_def a
    by (simp add: logHistory_def small_runtime_def BCRYPT_ROUNDS_def example_pin_surroundings_def)
  with a b show ?thesis by simp
qed

section \<open>File names of versions\<close>

lemma digit_code: "d < 10 \<Longrightarrow> (of_char (char_of (48 + d :: nat)) :: nat) = 48 + d"
  by simp

lemma is_digit_digit: "d < 10 \<Longrightarrow> is_digit (char_of (48 + d :: nat))"
  by (simp add: is_digit_def)

lemma decimal_small: "n < 10 \<Longrightarrow> decimal n = [char_of (48 + n)]"
  by (simp add: decimal.simps)

lemma decimal_large:
  "10 \<le> n \<Longrightarrow> decimal n = decimal (n div 10) @ [char_of (48 + n mod 10)]"
  by (subst decimal.simps) simp

lemma decimal_not_Nil: "decimal n \<noteq> []"
  by (subst decimal.simps) simp

lemma decimal_digits: "list_all is_digit (decimal n)"
proof (induction n rule: decimal.induct)
  case (1 n)
  show ?case
  proof (cases "n < 10")
    case True
    then show ?thesis by (simp add: decimal_small is_digit_digit)
  next
    case False
    with "1" show ?thesis by (simp add: decimal_large is_digit_digit)
  qed
qed

lemma decimal_value: "foldl (\<lambda>a c. 10 * a + (of_char c - 48)) 0 (decimal n) = n"
proof (induction n rule: decimal.induct)
  case (1 n)
  show ?case
  proof (cases "n < 10")
    case True
    then show ?thesis by (simp add: decimal_small)
  next
    case False
    with "1" show ?thesis by (simp add: decimal_large)
  qed
qed

lemma number_of_decimal: "number_of (decimal n) = Some n"
  by (simp add: number_of_def decimal_not_Nil decimal_digits decimal_value)

lemma before_sep_digits:
  "list_all is_digit xs \<Longrightarrow> before_sep ''.json.gz'' (xs @ ''.json.gz'') = xs"
proof (induction xs)
  case Nil
  show ?case by simp
next
  case (Cons c cs)
  then have "c \<noteq> CHR ''.''"
    by (auto simp add: is_digit_def)
  with Cons show ?case by simp
qed

lemma ts_of_version_filename:
  "number_of (before_sep ''.json.gz'' (version_filename t)) = Some t"
  by (simp add: version_filename_def before_sep_digits decimal_digits number_of_decimal)

lemma version_filename_inject: "version_filename a = version_filename b \<longleftrightarrow> a = b"
  by (metis ts_of_version_filename option.inject)

lemma length_decimal: "10 ^ k \<le> n \<Longrightarrow> n < 10 ^ Suc k \<Longrightarrow> length (decimal n) = Suc k"
proof (induction k arbitrary: n)
  case 0
  then show ?case by (simp add: decimal_small)
next
  case (Suc k)
  have "(1::nat) \<le> 10 ^ k"
    by simp
  then have "(10::nat) \<le> 10 ^ Suc k"
    by simp
  with Suc.prems have big: "10 \<le> n"
    by linarith
  from Suc.prems have "10 ^ k \<le> n div 10" and "n div 10 < 10 ^ Suc k"
    by (simp_all add: less_mult_imp_div_less mult.commute div_le_mono)
  with Suc.IH [of "n div 10"] big show ?case
    by (simp add: decimal_large)
qed

lemma append_less_same_length:
  "length xs = length ys \<Longrightarrow>
     (xs @ us < ys @ vs \<longleftrightarrow> xs < ys \<or> xs = ys \<and> us < vs)"
  for xs ys :: "'a::linorder list"
  by (induction xs ys rule: list_induct2) auto

lemma digit_less:
  "a < 10 \<Longrightarrow> b < 10 \<Longrightarrow> char_of (48 + a :: nat) < char_of (48 + b :: nat) \<longleftrightarrow> a < b"
  by (simp add: less_char_def)

lemma decimal_less:
  "length (decimal a) = length (decimal b) \<Longrightarrow> decimal a < decimal b \<longleftrightarrow> a < b"
proof (induction a arbitrary: b rule: decimal.induct)
  case (1 a)
  show ?case
  proof (cases "a < 10")
    case True
    with "1.prems" have "b < 10"
      by (cases "b < 10") (simp_all add: decimal_small decimal_large decimal_not_Nil)
    with True show ?thesis
      by (simp add: decimal_small digit_less)
  next
    case False
    with "1.prems" have b: "\<not> b < 10"
      by (cases "b < 10") (simp_all add: decimal_small decimal_large decimal_not_Nil)
    define qa ra qb rb where "qa = a div 10" and "ra = a mod 10"
      and "qb = b div 10" and "rb = b mod 10"
    have a: "a = 10 * qa + ra" and ra: "ra < 10" and b': "b = 10 * qb + rb" and rb: "rb < 10"
      by (simp_all add: qa_def ra_def qb_def rb_def)
    have da: "decimal a = decimal qa @ [char_of (48 + ra)]"
      unfolding qa_def ra_def using False by (intro decimal_large) simp
    have db: "decimal b = decimal qb @ [char_of (48 + rb)]"
      unfolding qb_def rb_def using b by (intro decimal_large) simp
    from "1.prems" have len: "length (decimal qa) = length (decimal qb)"
      by (simp add: da db)
    have eq: "decimal qa = decimal qb \<longleftrightarrow> qa = qb"
      by (metis number_of_decimal option.inject)
    have ih: "decimal qa < decimal qb \<longleftrightarrow> qa < qb"
      using "1.IH" [OF False, of qb] len by (simp add: qa_def)
    have "decimal a < decimal b \<longleftrightarrow> qa < qb \<or> qa = qb \<and> ra < rb"
      by (simp add: da db append_less_same_length [OF len] digit_less [OF ra rb] eq ih)
    also have "\<dots> \<longleftrightarrow> a < b"
      using ra rb unfolding a b' by presburger
    finally show ?thesis .
  qed
qed

lemma version_filename_less:
  "length (decimal a) = length (decimal b) \<Longrightarrow>
     version_filename a < version_filename b \<longleftrightarrow> a < b"
  by (simp add: version_filename_def append_less_same_length decimal_less)

section \<open>What a request to create a note changes\<close>

lemma logHistory_fields [simp]:
  "version_dirs (logHistory ts a p s) = version_dirs s"
  "notes_index (logHistory ts a p s) = notes_index s"
  "meta_file (logHistory ts a p s) = meta_file s"
  "jwt_secret (logHistory ts a p s) = jwt_secret s"
  "note_dirs (logHistory ts a p s) = note_dirs s"
  by (simp_all add: logHistory_def)

lemma saveNotesIndex_fields [simp]:
  "version_dirs (saveNotesIndex ts arr s) = version_dirs s"
  "notes_index (saveNotesIndex ts arr s) = arr"
  "meta_file (saveNotesIndex ts arr s) = meta_file s"
  "jwt_secret (saveNotesIndex ts arr s) = jwt_secret s"
  by (simp_all add: saveNotesIndex_def)

lemma ensure_note_dir_fields [simp]:
  "version_dirs (ensure_note_dir nid s) = version_dirs s"
  "notes_index (ensure_note_dir nid s) = notes_index s"
  "meta_file (ensure_note_dir nid s) = meta_file s"
  "jwt_secret (ensure_note_dir nid s) = jwt_secret s"
  by (simp_all add: ensure_note_dir_def)

lemma ensure_versions_dir_fields [simp]:
  "notes_index (ensure_versions_dir nid s) = notes_index s"
  "meta_file (ensure_versions_dir nid s) = meta_file s"
  by (simp_all add: ensure_versions_dir_def split: option.splits)

lemma write_version_file_fields [simp]:
  "notes_index (write_version_file nid f data s) = notes_index s"
  "meta_file (write_version_file nid f data s) = meta_file s"
  by (simp_all add: write_version_file_def)

lemma stored_version_frame [simp]:
  "stored_version (logHistory ts a p s) = stored_version s"
  "stored_version (saveNotesIndex ts arr s) = stored_version s"
  "stored_version (ensure_note_dir nid s) = stored_version s"
  by (simp_all add: stored_version_def fun_eq_iff)

lemma stored_version_ensure [simp]:
  "stored_version (ensure_versions_dir nid s) = stored_version s"
  by (auto simp add: stored_version_def ensure_versions_dir_def fun_eq_iff split: option.splits)

lemma stored_version_write:
  "stored_version (write_version_file nid f data s) n g =
     (if n = nid \<and> g = f then Some data else stored_version s n g)"
  by (auto simp add: stored_version_def write_version_file_def update_conv' split: option.splits)

lemma created_fields [simp]:
  "fst (created E entry profile s) = Reply 200 (JObj [(''ok'', JBool True), (''note'', entry_json entry)])"
  "notes_index (snd (created E entry profile s)) = notes_index s"
  "stored_version (snd (created E entry profile s)) = stored_version s"
  "version_dirs (snd (created E entry profile s)) = version_dirs s"
  by (simp_all add: created_def)

lemma server_assisted_write_index:
  "server_assisted_write R E nid bl s = (r, s') \<Longrightarrow> notes_index s' = notes_index s"
  by (auto simp add: server_assisted_write_def Let_def split: sum.splits)

lemma client_write_index:
  "client_write R E nid profile bl s = (r, s') \<Longrightarrow> notes_index s' = notes_index s"
  by (auto simp add: client_write_def Let_def split: sum.splits)

lemma server_assisted_write_failed:
  "server_assisted_write R E nid bl s = (Some e, s') \<Longrightarrow> stored_version s' = stored_version s"
  by (auto simp add: server_assisted_write_def Let_def split: sum.splits)

lemma server_assisted_write_done:
  "server_assisted_write R E nid bl s = (None, s') \<Longrightarrow>
     \<exists>data. \<forall>n g. stored_version s' n g =
       (if n = nid \<and> g = version_filename (now_version E) then Some data
        else stored_version s n g)"
  by (auto simp add: server_assisted_write_def Let_def stored_version_write split: sum.splits)

lemma client_write_failed:
  "client_write R E nid profile bl s = (Some e, s') \<Longrightarrow> stored_version s' = stored_version s"
  by (auto simp add: client_write_def Let_def split: sum.splits)

lemma client_write_done:
  "client_write R E nid profile bl s = (None, s') \<Longrightarrow>
     \<exists>data. \<forall>n g. stored_version s' n g =
       (if n = nid \<and> g = version_filename (now_version E) then Some data
        else stored_version s n g)"
  by (auto simp add: client_write_def Let_def stored_version_write split: sum.splits)

text \<open>The three ways a request with a title ends.\<close>

lemma post_notes_cases:
  assumes "truthy (title body)"
  obtains
    (failed) e where
      "fst (post_notes R E s body) = Reply 500 (JObj [(''error'', JStr ''server encryption failed'')])
       \<or> fst (post_notes R E s body) = Uncaught e"
      "stored_version (snd (post_notes R E s body)) = stored_version s"
      "with_payload s body"
  | (stored) data where
      "fst (post_notes R E s body) =
         Reply 200 (JObj [(''ok'', JBool True), (''note'', entry_json (new_entry E body))])"
      "\<forall>n g. stored_version (snd (post_notes R E s body)) n g =
         (if n = note_id (new_entry E body) \<and> g = version_filename (now_version E)
          then Some data else stored_version s n g)"
      "with_payload s body"
  | (bare)
      "fst (post_notes R E s body) =
         Reply 200 (JObj [(''ok'', JBool True), (''note'', entry_json (new_entry E body))])"
      "stored_version (snd (post_notes R E s body)) = stored_version s"
      "\<not> with_payload s body"
proof -
  let ?entry = "new_entry E body"
  let ?nid = "note_id ?entry"
  let ?s2 = "ensure_note_dir ?nid (saveNotesIndex (now_index_log E) (?entry # loadNotesIndex s) s)"
  let ?profile = "resolve_profile (encryptionMode body) (meta_file s)"
  have frame: "stored_version ?s2 = stored_version s"
    by simp
  consider (sa) "has_plaintext (body_blob body) \<and> ?profile = ''server-assisted''"
    | (cl) "\<not> (has_plaintext (body_blob body) \<and> ?profile = ''server-assisted'')"
        "has_ciphertext (body_blob body)"
    | (no) "\<not> (has_plaintext (body_blob body) \<and> ?profile = ''server-assisted'')"
        "\<not> has_ciphertext (body_blob body)"
    by blast
  then show thesis
  proof cases
    case sa
    obtain r s3 where w: "server_assisted_write R E ?nid (the (body_blob body)) ?s2 = (r, s3)"
      by (cases "server_assisted_write R E ?nid (the (body_blob body)) ?s2")
    show thesis
    proof (cases r)
      case None
      from server_assisted_write_done [OF w [unfolded None]] obtain data where
        "\<forall>n g. stored_version s3 n g =
           (if n = ?nid \<and> g = version_filename (now_version E) then Some data
            else stored_version ?s2 n g)"
        by blast
      with sa w None assms frame show thesis
        by (intro stored [of data]) (simp_all add: post_notes_def Let_def with_payload_def)
    next
      case (Some e)
      from server_assisted_write_failed [OF w [unfolded Some]] frame
      have "stored_version s3 = stored_version s" by simp
      with sa w Some assms show thesis
        by (intro failed [of e]) (simp_all add: post_notes_def Let_def with_payload_def)
    qed
  next
    case cl
    obtain r s3 where w: "client_write R E ?nid ?profile (the (body_blob body)) ?s2 = (r, s3)"
      by (cases "client_write R E ?nid ?profile (the (body_blob body)) ?s2")
    show thesis
    proof (cases r)
      case None
      from client_write_done [OF w [unfolded None]] obtain data where
        "\<forall>n g. stored_version s3 n g =
           (if n = ?nid \<and> g = version_filename (now_version E) then Some data
            else stored_version ?s2 n g)"
        by blast
      with cl w None assms frame show thesis
        by (intro stored [of data]) (auto simp add: post_notes_def Let_def with_payload_def)
    next
      case (Some e)
      from client_write_failed [OF w [unfolded Some]] frame
      have "stored_version s3 = stored_version s" by simp
      with cl w Some assms show thesis
        by (intro failed [of e]) (auto simp add: post_notes_def Let_def with_payload_def)
    qed
  next
    case no
    with assms show thesis
      by (intro bare) (auto simp add: post_notes_def Let_def with_payload_def)
  qed
qed

lemma post_notes_index:
  assumes "truthy (title body)"
  shows "notes_index (snd (post_notes R E s body)) = new_entry E body # notes_index s"
  using assms
  by (auto simp add: post_notes_def Let_def loadNotesIndex_def split: prod.splits option.splits
        dest: server_assisted_write_index client_write_index)

text \<open>The client of a request with a title receives status 200 or 500.\<close>

lemma post_notes_status:
  assumes "truthy (title body)"
  shows "http_status (fst (post_notes R E s body)) = 200
         \<or> http_status (fst (post_notes R E s body)) = 500"
  using assms
proof (cases rule: post_notes_cases [where R = R and E = E and s = s])
  case (failed e)
  then show ?thesis by auto
next
  case (stored data)
  then show ?thesis by simp
next
  case bare
  then show ?thesis by simp
qed

lemma new_entry_frame [simp]:
  "new_entry E (body\<lparr>body_blob := b\<rparr>) = new_entry E body"
  "new_entry E (body\<lparr>encryptionMode := m\<rparr>) = new_entry E body"
  by (simp_all add: new_entry_def)

section \<open>Plaintext under the client-only policy\<close>

text \<open>
  C1, as the code has it. The handler has no rejection for a policy mismatch: the only
  test of the policy is the one that selects the server-assisted branch. For a request
  with a title whose blob carries plaintext while the resolved policy is client-only, the
  plaintext is ignored: the outcome and the state are those of the same request without
  the plaintext. When the blob has no ciphertext with a nonce, the request is answered with
  200 and no version is stored or changed.
\<close>

theorem plaintext_under_client_only:
  assumes "truthy (title body)" and "has_plaintext (body_blob body)"
    and "resolve_profile (encryptionMode body) (meta_file s) = ''client-only''"
  shows "post_notes R E s body =
           post_notes R E s
             (body\<lparr>body_blob := map_option (\<lambda>bl. bl\<lparr>plaintext := None\<rparr>) (body_blob body)\<rparr>)
         \<and> (\<not> has_ciphertext (body_blob body) \<longrightarrow>
              fst (post_notes R E s body) = ok_reply (new_entry E body)
              \<and> stored_version (snd (post_notes R E s body)) = stored_version s)"
proof -
  let ?body' = "body\<lparr>body_blob := map_option (\<lambda>bl. bl\<lparr>plaintext := None\<rparr>) (body_blob body)\<rparr>"
  from assms(2) obtain bl where bl: "body_blob body = Some bl"
    by (cases "body_blob body") (simp_all add: has_plaintext_def)
  have "post_notes R E s body = post_notes R E s ?body'"
    using assms bl
    by (simp add: post_notes_def Let_def has_plaintext_def has_ciphertext_def
          client_write_def)
  moreover from assms(3) have no: "with_payload s body \<longleftrightarrow> has_ciphertext (body_blob body)"
    by (simp add: with_payload_def)
  from assms(1)
  have "\<not> has_ciphertext (body_blob body) \<longrightarrow>
              fst (post_notes R E s body) = ok_reply (new_entry E body)
              \<and> stored_version (snd (post_notes R E s body)) = stored_version s"
  proof (cases rule: post_notes_cases [where R = R and E = E and s = s])
    case (failed e)
    with no show ?thesis by simp
  next
    case (stored data)
    with no show ?thesis by (simp add: ok_reply_def)
  next
    case bare
    then show ?thesis by (simp add: ok_reply_def)
  qed
  ultimately show ?thesis by blast
qed

theorem plaintext_under_client_only_witness:
  "post_notes small_runtime example_surroundings example_server plaintext_body =
     post_notes small_runtime example_surroundings example_server
       (plaintext_body\<lparr>body_blob :=
          map_option (\<lambda>bl. bl\<lparr>plaintext := None\<rparr>) (body_blob plaintext_body)\<rparr>)
   \<and> stored_version
        (snd (post_notes small_runtime example_surroundings example_server plaintext_body))
       = stored_version example_server"
proof -
  have 1: "truthy (title plaintext_body)" and 2: "has_plaintext (body_blob plaintext_body)"
    and 3: "resolve_profile (encryptionMode plaintext_body) (meta_file example_server)
              = ''client-only''"
    and 4: "\<not> has_ciphertext (body_blob plaintext_body)"
    by code_simp+
  from plaintext_under_client_only [OF 1 2 3, of small_runtime example_surroundings] 4
  show ?thesis by blast
qed

text \<open>
  The claim as stated fails: plaintext sent under the client-only policy is answered with
  200 and the note is added to the index.
\<close>

theorem plaintext_under_client_only_counterexample:
  "has_plaintext (body_blob plaintext_body)
   \<and> resolve_profile (encryptionMode plaintext_body) (meta_file example_server) = ''client-only''
   \<and> fst (post_notes small_runtime example_surroundings example_server plaintext_body)
       = ok_reply (new_entry example_surroundings plaintext_body)
   \<and> notes_index (snd (post_notes small_runtime example_surroundings example_server plaintext_body))
       = [new_entry example_surroundings plaintext_body]"
  by code_simp

section \<open>What survives a failed write\<close>

text \<open>
  C2, as the code has it. For a request with a title the entry of the note is put into
  the index before anything else and stays there whatever follows. If the request is not
  answered with 200, it carried a payload and a stage of storing it threw (key derivation,
  compression, encryption, or packing the version file): no version file of any note is
  written or changed. If it is answered with 200 and carried a payload (plaintext under
  the server-assisted policy, or a ciphertext with a nonce), exactly one version file is
  written, the one of this note named by the time of the write, and every other file is
  as before. A request without such a payload is answered with 200 and writes no version.
\<close>

theorem note_write_outcomes:
  assumes "truthy (title body)"
  shows "notes_index (snd (post_notes R E s body)) = new_entry E body # notes_index s
    \<and> ((\<forall>j. fst (post_notes R E s body) \<noteq> Reply 200 j) \<longrightarrow>
          with_payload s body \<and> stored_version (snd (post_notes R E s body)) = stored_version s)
    \<and> ((\<exists>j. fst (post_notes R E s body) = Reply 200 j) \<and> with_payload s body \<longrightarrow>
          (\<exists>data. \<forall>n g. stored_version (snd (post_notes R E s body)) n g =
             (if n = note_id (new_entry E body) \<and> g = version_filename (now_version E)
              then Some data else stored_version s n g)))
    \<and> (\<not> with_payload s body \<longrightarrow>
          fst (post_notes R E s body) = ok_reply (new_entry E body)
          \<and> stored_version (snd (post_notes R E s body)) = stored_version s)"
proof -
  from assms
  have "((\<forall>j. fst (post_notes R E s body) \<noteq> Reply 200 j) \<longrightarrow>
          with_payload s body \<and> stored_version (snd (post_notes R E s body)) = stored_version s)
    \<and> ((\<exists>j. fst (post_notes R E s body) = Reply 200 j) \<and> with_payload s body \<longrightarrow>
          (\<exists>data. \<forall>n g. stored_version (snd (post_notes R E s body)) n g =
             (if n = note_id (new_entry E body) \<and> g = version_filename (now_version E)
              then Some data else stored_version s n g)))
    \<and> (\<not> with_payload s body \<longrightarrow>
          fst (post_notes R E s body) = ok_reply (new_entry E body)
          \<and> stored_version (snd (post_notes R E s body)) = stored_version s)"
  proof (cases rule: post_notes_cases [where R = R and E = E and s = s])
    case (failed e)
    then show ?thesis by auto
  next
    case (stored data)
    then show ?thesis by auto
  next
    case bare
    then show ?thesis by (simp add: ok_reply_def)
  qed
  with post_notes_index [OF assms] show ?thesis by blast
qed

theorem note_write_outcomes_witness:
  "notes_index (snd (post_notes small_runtime example_surroundings example_server
          (plaintext_body\<lparr>encryptionMode := Some ''server-assisted''\<rparr>)))
     = new_entry example_surroundings (plaintext_body\<lparr>encryptionMode := Some ''server-assisted''\<rparr>)
         # notes_index example_server
   \<and> (\<exists>data. \<forall>n g.
         stored_version (snd (post_notes small_runtime example_surroundings example_server
            (plaintext_body\<lparr>encryptionMode := Some ''server-assisted''\<rparr>))) n g =
         (if n = note_id (new_entry example_surroundings
                    (plaintext_body\<lparr>encryptionMode := Some ''server-assisted''\<rparr>))
             \<and> g = version_filename (now_version example_surroundings)
          then Some data else stored_version example_server n g))"
proof -
  let ?b = "plaintext_body\<lparr>encryptionMode := Some ''server-assisted''\<rparr>"
  have 1: "truthy (title ?b)" and 2: "with_payload example_server ?b"
    by code_simp+
  have 3: "fst (post_notes small_runtime example_surroundings example_server ?b)
             = ok_reply (new_entry example_surroundings ?b)"
    by code_simp
  then have "\<exists>j. fst (post_notes small_runtime example_surroundings example_server ?b) = Reply 200 j"
    by (simp add: ok_reply_def)
  with note_write_outcomes [OF 1, of small_runtime example_surroundings example_server] 2
  show ?thesis by blast
qed

text \<open>
  The claim as stated fails: when the key derivation throws, the request is answered with
  500 and the entry of the note is in the index all the same.
\<close>

theorem note_write_outcomes_counterexample:
  "fst (post_notes scrypt_failing_runtime example_surroundings example_server
          (plaintext_body\<lparr>encryptionMode := Some ''server-assisted''\<rparr>))
     = Reply 500 (JObj [(''error'', JStr ''server encryption failed'')])
   \<and> notes_index example_server = []
   \<and> notes_index (snd (post_notes scrypt_failing_runtime example_surroundings example_server
          (plaintext_body\<lparr>encryptionMode := Some ''server-assisted''\<rparr>)))
     = [new_entry example_surroundings plaintext_body]"
  by code_simp

section \<open>Versions are kept under the time of their write\<close>

text \<open>
  C3, as the code has it. A version is a file named by the millisecond of its write and by
  nothing else. Two successful writes with a payload to the same note at different times
  leave two stored versions under two different names, the first one unchanged by the
  second; and a write changes no stored version, of any note, whose name is not the one
  of its own time.
\<close>

theorem two_writes_two_versions:
  assumes "truthy (title b1)" and "truthy (title b2)"
    and "note_id (new_entry E1 b1) = nid" and "note_id (new_entry E2 b2) = nid"
    and "now_version E1 \<noteq> now_version E2"
    and "fst (post_notes R E1 s0 b1) = Reply 200 j1" and "with_payload s0 b1"
    and "s1 = snd (post_notes R E1 s0 b1)"
    and "fst (post_notes R E2 s1 b2) = Reply 200 j2" and "with_payload s1 b2"
    and "s2 = snd (post_notes R E2 s1 b2)"
  shows "(\<exists>d1 d2. stored_version s1 nid (version_filename (now_version E1)) = Some d1
            \<and> stored_version s2 nid (version_filename (now_version E1)) = Some d1
            \<and> stored_version s2 nid (version_filename (now_version E2)) = Some d2)
         \<and> version_filename (now_version E1) \<noteq> version_filename (now_version E2)
         \<and> (\<forall>n g. g \<noteq> version_filename (now_version E2) \<longrightarrow>
               stored_version s2 n g = stored_version s1 n g)"
proof -
  from assms(1) assms(6,7) obtain d1 where
    1: "\<forall>n g. stored_version s1 n g =
          (if n = nid \<and> g = version_filename (now_version E1) then Some d1
           else stored_version s0 n g)"
    unfolding assms(8) assms(3) [symmetric]
    by (cases rule: post_notes_cases [where R = R and E = E1 and s = s0]) auto
  from assms(2) assms(9,10) obtain d2 where
    2: "\<forall>n g. stored_version s2 n g =
          (if n = nid \<and> g = version_filename (now_version E2) then Some d2
           else stored_version s1 n g)"
    unfolding assms(11) assms(4) [symmetric]
    by (cases rule: post_notes_cases [where R = R and E = E2 and s = s1]) auto
  from assms(5) have 3: "version_filename (now_version E1) \<noteq> version_filename (now_version E2)"
    by (simp add: version_filename_inject)
  from 1 2 3 show ?thesis by simp
qed

theorem two_writes_two_versions_witness:
  "(\<exists>d1 d2. stored_version first_write ''n1'' (version_filename 1700000000001) = Some d1
            \<and> stored_version later_write ''n1'' (version_filename 1700000000001) = Some d1
            \<and> stored_version later_write ''n1'' (version_filename 1700000000002) = Some d2)
   \<and> version_filename 1700000000001 \<noteq> version_filename 1700000000002"
proof -
  let ?E2 = "at_time 1700000000002"
  let ?b1 = "ciphertext_body ''QUFBQQ==''" and ?b2 = "ciphertext_body ''QkJCQg==''"
  have t: "truthy (title ?b1)" "truthy (title ?b2)"
    and n: "note_id (new_entry example_surroundings ?b1) = ''n1''"
      "note_id (new_entry ?E2 ?b2) = ''n1''"
    and v: "now_version example_surroundings = 1700000000001" "now_version ?E2 = 1700000000002"
    by code_simp+
  have p: "with_payload example_server ?b1" "with_payload first_write ?b2"
    by code_simp+
  have r: "fst (post_notes small_runtime example_surroundings example_server ?b1)
             = ok_reply (new_entry example_surroundings ?b1)"
     "fst (post_notes small_runtime ?E2 first_write ?b2) = ok_reply (new_entry ?E2 ?b2)"
    by code_simp+
  have d: "now_version example_surroundings \<noteq> now_version ?E2"
    by (simp add: example_surroundings_def at_time_def)
  from two_writes_two_versions
    [OF t n d r(1) [unfolded ok_reply_def] p(1) first_write_def
        r(2) [unfolded ok_reply_def] p(2) later_write_def]
  show ?thesis unfolding v by blast
qed

text \<open>
  The claim as stated fails: two writes to one note in the same millisecond are both
  answered with 200, the note has one stored version afterwards, and its content is no
  longer that of the first write.
\<close>

theorem colliding_writes_counterexample:
  "fst (post_notes small_runtime example_surroundings example_server (ciphertext_body ''QUFBQQ==''))
     = ok_reply (new_entry example_surroundings (ciphertext_body ''QUFBQQ==''))
   \<and> fst (post_notes small_runtime example_surroundings first_write (ciphertext_body ''QkJCQg==''))
     = ok_reply (new_entry example_surroundings (ciphertext_body ''QkJCQg==''))
   \<and> map_option (map fst) (version_dirs first_write ''n1'') = Some [''1700000000001.json.gz'']
   \<and> map_option (map fst) (version_dirs colliding_write ''n1'') = Some [''1700000000001.json.gz'']
   \<and> stored_version colliding_write ''n1'' ''1700000000001.json.gz''
       \<noteq> stored_version first_write ''n1'' ''1700000000001.json.gz''"
  by code_simp

section \<open>The hybrid policy stores what the client sent\<close>

text \<open>
  C9. For a request with a title whose blob carries a ciphertext \<open>c\<close> and a nonce \<open>i\<close>, under
  the resolved policy hybrid as under client-only, the handler packs and writes one
  object: its \<^verbatim>\<open>ciphertext\<close> is \<open>c\<close> and its \<^verbatim>\<open>iv\<close> is \<open>i\<close>, as the client sent them, next to the
  checksum of \<open>c\<close>, the client's meta and the policy tag. The two policies give the same
  run but for that tag (in the version and in the history line); neither the cipher nor a
  key derivation occurs in it, so nothing is wrapped around the client's bytes.
\<close>

theorem hybrid_stores_client_bytes:
  assumes "truthy (title body)" and "body_blob body = Some bl"
    and "ciphertext bl = Some c" and "c \<noteq> []" and "blob_iv bl = Some i" and "i \<noteq> []"
    and "resolve_profile (encryptionMode body) (meta_file s) = mode"
    and "mode = ''hybrid'' \<or> mode = ''client-only''"
  shows "post_notes R E s body =
     (let entry = new_entry E body;
          nid = note_id entry;
          s2 = ensure_versions_dir nid (ensure_note_dir nid
                 (saveNotesIndex (now_index_log E) (entry # notes_index s) s))
      in case gzipSync R (to_utf8 R (json_stringify R
                (JObj [(''ciphertext'', JStr c), (''iv'', JStr i),
                       (''meta'', JObj [(''iv'', JStr i), (''checksum'', JStr (sha256_hex R c)),
                                         (''mode'', JStr mode),
                                         (''meta'', meta_or_empty (blob_meta bl))])]))) of
           Inl e \<Rightarrow> (Uncaught e, s2)
         | Inr data \<Rightarrow>
             created E entry mode
               (write_version_file nid (version_filename (now_version E)) data s2))"
proof -
  from assms(8) have "mode \<noteq> ''server-assisted''"
    by auto
  with assms(1-7) show ?thesis
    by (simp add: post_notes_def Let_def has_ciphertext_def client_write_def pack_json_def
          version_doc_def version_meta_def gzipBufferSync_def sha256Hex_def loadNotesIndex_def
          split: sum.splits)
qed

theorem hybrid_stores_client_bytes_witness:
  "stored_version (snd (post_notes small_runtime example_surroundings example_server hybrid_body))
     ''n1'' ''1700000000001.json.gz''
   = Some (31 # 139 # bytes_of (small_stringify
       (JObj [(''ciphertext'', JStr ''QUFBQQ==''), (''iv'', JStr ''bm9uY2Vub25jZTEy''),
              (''meta'', JObj [(''iv'', JStr ''bm9uY2Vub25jZTEy''),
                                (''checksum'', JStr (sha256_hex small_runtime ''QUFBQQ=='')),
                                (''mode'', JStr ''hybrid''), (''meta'', JObj [])])])))"
proof -
  have h: "truthy (title hybrid_body)"
    "body_blob hybrid_body =
       Some \<lparr>plaintext = None, ciphertext = Some ''QUFBQQ=='',
             blob_iv = Some ''bm9uY2Vub25jZTEy'', blob_meta = None\<rparr>"
    and m: "resolve_profile (encryptionMode hybrid_body) (meta_file example_server) = ''hybrid''"
    by (simp_all add: hybrid_body_def ciphertext_body_def resolve_profile_def)
  show ?thesis
    apply (subst hybrid_stores_client_bytes
        [OF h, of "''QUFBQQ==''" "''bm9uY2Vub25jZTEy''" example_server "''hybrid''"])
          apply (simp_all add: m)
    apply code_simp
    done
qed

section \<open>The order of the listing\<close>

lemma sort_three:
  fixes a b c :: "'a::linorder"
  assumes "distinct xs" and "set xs = {a, b, c}" and "a < b" and "b < c"
  shows "sort xs = [a, b, c]"
proof (rule sorted_distinct_set_unique)
  show "sorted (sort xs)" by simp
  show "distinct (sort xs)" using assms(1) by simp
  show "sorted [a, b, c]" using assms(3,4) by auto
  show "distinct [a, b, c]" using assms(3,4) by auto
  show "set (sort xs) = set [a, b, c]" using assms(2) by auto
qed

lemma summary_of_version:
  "map_of dir (version_filename t) = Some data \<Longrightarrow>
     summary_of R dir (version_filename t) =
       \<lparr>sum_filename = version_filename t, sum_ts = Some t, sum_meta = meta_of_file R data\<rparr>"
  by (simp add: summary_of_def ts_of_version_filename)

text \<open>
  Where the listing is in the order of time: the file names are sorted as strings, and
  between times with the same number of decimal digits (\<open>10 ^ k \<le> t1\<close> and
  \<open>t3 < 10 ^ (k + 1)\<close>) the order of the names is the order of the times.
\<close>

lemma list_versions_same_digits:
  assumes "version_dirs s nid = Some dir" and "distinct (map fst dir)"
    and "set (map fst dir) = {version_filename t1, version_filename t2, version_filename t3}"
    and "map_of dir (version_filename t1) = Some d1"
    and "map_of dir (version_filename t2) = Some d2"
    and "map_of dir (version_filename t3) = Some d3"
    and "10 ^ k \<le> t1" and "t1 < t2" and "t2 < t3" and "t3 < 10 ^ Suc k"
  shows "list_versions R s nid =
           Some [\<lparr>sum_filename = version_filename t3, sum_ts = Some t3,
                   sum_meta = meta_of_file R d3\<rparr>,
                 \<lparr>sum_filename = version_filename t2, sum_ts = Some t2,
                   sum_meta = meta_of_file R d2\<rparr>,
                 \<lparr>sum_filename = version_filename t1, sum_ts = Some t1,
                   sum_meta = meta_of_file R d1\<rparr>]"
proof -
  from assms(7-10) have "length (decimal t1) = Suc k" and "length (decimal t2) = Suc k"
    and "length (decimal t3) = Suc k"
    by (simp_all add: length_decimal)
  with assms(8,9) have "version_filename t1 < version_filename t2"
    and "version_filename t2 < version_filename t3"
    by (simp_all add: version_filename_less)
  with assms(2,3) have "sort (map fst dir) =
      [version_filename t1, version_filename t2, version_filename t3]"
    by (intro sort_three)
  with assms(1,4,5,6) show ?thesis
    by (simp add: list_versions_def summary_of_version)
qed

text \<open>
  C6. For a note with versions written at times \<open>t1 < t2 < t3\<close>, the listing is to return
  the summaries newest first, \<open>t3\<close>, \<open>t2\<close>, \<open>t1\<close>. The handler sorts the file names and reverses
  them (line 426) to that end, but the sort is the one of strings. After three writes to
  the note \<open>n1\<close> at the times \<open>999999999998 < 999999999999 < 1000000000000\<close>, where the number
  of digits changes, the listing of \<open>n1\<close> puts the newest version last.
\<close>

theorem list_versions_newest_last:
  "map_option (map sum_ts)
     (list_versions small_runtime (three_writes 999999999998 999999999999 1000000000000) ''n1'')
   = Some [Some 999999999999, Some 999999999998, Some 1000000000000]"
  by code_simp

end
